theory Spec2Isabelle
  imports Complex_Main "HOL-Library.AList"
begin

section \<open>Python values and the workflow state\<close>

text \<open>
  The workflow state is a Python dictionary (\<^verbatim>\<open>initial_state.dict()\<close>) that every node
  function reads and mutates through string keys. Its values are JSON-like data: the
  collections of the schema and what the output parser makes of the model's replies. A
  dictionary is an association list updated the way Python does it (an existing key
  keeps its position, a new key is added at the end).
\<close>

datatype pyval =
    PNone
  | PBool bool
  | PInt int
  | PFloat real
  | PStr string
  | PList "pyval list"
  | PDict "(string \<times> pyval) list"

type_synonym state = "(string \<times> pyval) list"

text \<open>
  What a node function or the resolution of the next step can raise. \<open>ChainError\<close>
  stands for every exception of building or invoking the chain before the model is
  called: the \<^verbatim>\<open>KeyError\<close> or \<^verbatim>\<open>ValueError\<close> of a prompt template that is refused, and the
  \<^verbatim>\<open>TypeError\<close> of piping a prompt into something that is no language model.
  \<open>ModelCallError\<close> is the failure of the model call itself, with its reason.
\<close>

datatype error =
    KeyError string
  | TypeError
  | AttributeError
  | ChainError
  | ModelCallError string
  | UnknownStepError string

text \<open>Truth value of a Python object, as tested by \<^verbatim>\<open>x if c else y\<close> and \<^verbatim>\<open>if c:\<close>.\<close>

fun truthy :: "pyval \<Rightarrow> bool" where
  "truthy PNone = False"
| "truthy (PBool b) = b"
| "truthy (PInt i) = (i \<noteq> 0)"
| "truthy (PFloat r) = (r \<noteq> 0)"
| "truthy (PStr s) = (s \<noteq> [])"
| "truthy (PList xs) = (xs \<noteq> [])"
| "truthy (PDict d) = (d \<noteq> [])"

text \<open>\<^verbatim>\<open>v[k]\<close> with a string key: only a dictionary can be subscripted that way.\<close>

fun getitem :: "pyval \<Rightarrow> string \<Rightarrow> error + pyval" where
  "getitem (PDict d) k = (case map_of d k of Some x \<Rightarrow> Inr x | None \<Rightarrow> Inl (KeyError k))"
| "getitem _ k = Inl TypeError"

text \<open>\<^verbatim>\<open>v.get(k, default)\<close>: a method of dictionaries only.\<close>

fun dict_get :: "pyval \<Rightarrow> string \<Rightarrow> pyval \<Rightarrow> error + pyval" where
  "dict_get (PDict d) k dflt = Inr (case map_of d k of Some x \<Rightarrow> x | None \<Rightarrow> dflt)"
| "dict_get _ k dflt = Inl AttributeError"

text \<open>\<^verbatim>\<open>v[k] = x\<close> with a string key; the result is the new value of \<^verbatim>\<open>v\<close>.\<close>

fun setitem :: "pyval \<Rightarrow> string \<Rightarrow> pyval \<Rightarrow> error + pyval" where
  "setitem (PDict d) k x = Inr (PDict (AList.update k x d))"
| "setitem _ k x = Inl TypeError"

text \<open>\<^verbatim>\<open>v.append(x)\<close>; the result is the new value of \<^verbatim>\<open>v\<close>.\<close>

fun py_append :: "pyval \<Rightarrow> pyval \<Rightarrow> error + pyval" where
  "py_append (PList xs) x = Inr (PList (xs @ [x]))"
| "py_append _ x = Inl AttributeError"

text \<open>\<^verbatim>\<open>len(v)\<close>.\<close>

fun py_len :: "pyval \<Rightarrow> error + pyval" where
  "py_len (PStr s) = Inr (PInt (int (length s)))"
| "py_len (PList xs) = Inr (PInt (int (length xs)))"
| "py_len (PDict d) = Inr (PInt (int (length d)))"
| "py_len _ = Inl TypeError"

text \<open>\<^verbatim>\<open>v[:100]\<close>.\<close>

fun slice100 :: "pyval \<Rightarrow> error + pyval" where
  "slice100 (PStr s) = Inr (PStr (take 100 s))"
| "slice100 (PList xs) = Inr (PList (take 100 xs))"
| "slice100 _ = Inl TypeError"

text \<open>
  \<^verbatim>\<open>result.user_stories\<close>, \<^verbatim>\<open>result.approved\<close> and \<^verbatim>\<open>result.dict()\<close>, which the node
  functions of \<^verbatim>\<open>user-stories-module.py\<close> apply to the reply. The reply is what
  \<^verbatim>\<open>JsonOutputParser\<close> returns, a JSON value, and no JSON value (a dictionary included)
  has such an attribute.
\<close>

fun getattr :: "pyval \<Rightarrow> string \<Rightarrow> error + pyval" where
  "getattr v k = Inl AttributeError"

fun model_dict :: "pyval \<Rightarrow> error + pyval" where
  "model_dict v = Inl AttributeError"

text \<open>The elements a \<^verbatim>\<open>for\<close> clause iterates over.\<close>

fun py_iter :: "pyval \<Rightarrow> error + pyval list" where
  "py_iter (PList xs) = Inr xs"
| "py_iter (PDict d) = Inr (map (\<lambda>p. PStr (fst p)) d)"
| "py_iter (PStr s) = Inr (map (\<lambda>c. PStr [c]) s)"
| "py_iter _ = Inl TypeError"

text \<open>\<^verbatim>\<open>[story.dict() for story in xs]\<close>: stops at the first element that raises.\<close>

fun dict_each :: "pyval list \<Rightarrow> error + pyval list" where
  "dict_each [] = Inr []"
| "dict_each (x # xs) =
     (case model_dict x of
        Inl e \<Rightarrow> Inl e
      | Inr d \<Rightarrow> (case dict_each xs of Inl e \<Rightarrow> Inl e | Inr ds \<Rightarrow> Inr (d # ds)))"

section \<open>Values pasted into a prompt template\<close>

text \<open>
  The node functions paste state values into the text of a message with an f-string and
  hand the text to \<^verbatim>\<open>ChatPromptTemplate.from_messages\<close>, which reads it as a template:
  \<^verbatim>\<open>{name}\<close> is a variable, \<^verbatim>\<open>{{\<close> and \<^verbatim>\<open>}}\<close> are literal braces. The chain is invoked
  with no variables (\<^verbatim>\<open>chain.invoke({})\<close>), so a text with a variable is refused with a
  \<^verbatim>\<open>KeyError\<close>, and a text with a stray brace with a \<^verbatim>\<open>ValueError\<close>. The literal parts of
  the prompts in the sources have no braces, so whether a prompt is accepted depends on
  the pasted values alone.

  A text is plain when, read from the left, every brace is followed by the same brace.
\<close>

fun plain_text :: "string \<Rightarrow> bool" where
  "plain_text [] = True"
| "plain_text [c] = (c \<noteq> CHR ''{'' \<and> c \<noteq> CHR ''}'')"
| "plain_text (c # d # cs) =
     (if c = CHR ''{'' \<or> c = CHR ''}'' then d = c \<and> plain_text cs else plain_text (d # cs))"

text \<open>
  Whether \<^verbatim>\<open>str(v)\<close> is plain. A dictionary prints inside single braces, the empty one as
  \<^verbatim>\<open>{}\<close>, so it never is. A list prints its elements between brackets and commas.
  A string prints as itself, or quoted and escaped inside a list, which leaves its
  braces and what is next to them as they are. Numbers, booleans and \<^verbatim>\<open>None\<close> print
  without braces.
\<close>

fun template_safe :: "pyval \<Rightarrow> bool" where
  "template_safe (PStr s) = plain_text s"
| "template_safe (PList xs) = list_all template_safe xs"
| "template_safe (PDict d) = False"
| "template_safe _ = True"

text \<open>
  What \<^verbatim>\<open>MessagesPlaceholder\<close> makes of the value given for \<^verbatim>\<open>history\<close>: it must be a list,
  and each element must convert to a message. Among JSON values a string does (a human
  message), and so does a dictionary, or a pair, that names a chat role and a text.
  The records \<^verbatim>\<open>add_to_history\<close> writes have the keys actor, message and timestamp and
  are refused with a \<^verbatim>\<open>ValueError\<close>.
\<close>

definition chat_roles :: "string list" where
  "chat_roles = [''human'', ''user'', ''ai'', ''assistant'', ''system'']"

fun chat_message :: "pyval \<Rightarrow> bool" where
  "chat_message (PStr s) = True"
| "chat_message (PList [PStr role, PStr content]) = (role \<in> set chat_roles)"
| "chat_message (PDict d) =
     (case (case map_of d ''role'' of Some r \<Rightarrow> Some r | None \<Rightarrow> map_of d ''type'') of
        Some (PStr role) \<Rightarrow>
          role \<in> set chat_roles
          \<and> (case map_of d ''content'' of Some (PStr content) \<Rightarrow> True | _ \<Rightarrow> False)
      | _ \<Rightarrow> False)"
| "chat_message _ = False"

fun chat_history :: "pyval \<Rightarrow> bool" where
  "chat_history (PList xs) = list_all chat_message xs"
| "chat_history _ = False"

section \<open>Statements: state passing with exceptions\<close>

text \<open>
  A statement runs on the state dictionary and either returns a value or raises; in
  both cases the dictionary holds whatever was written before, since the node
  functions mutate it in place.
\<close>

type_synonym 'a exec = "state \<Rightarrow> (error + 'a) \<times> state"

definition ret :: "'a \<Rightarrow> 'a exec" where
  "ret x = (\<lambda>s. (Inr x, s))"

definition lift :: "error + 'a \<Rightarrow> 'a exec" where
  "lift r = (\<lambda>s. (r, s))"

definition bnd :: "'a exec \<Rightarrow> ('a \<Rightarrow> 'b exec) \<Rightarrow> 'b exec" where
  "bnd m f = (\<lambda>s. case m s of (Inl e, s') \<Rightarrow> (Inl e, s') | (Inr x, s') \<Rightarrow> f x s')"

definition seq :: "unit exec \<Rightarrow> 'b exec \<Rightarrow> 'b exec" where
  "seq m n = bnd m (\<lambda>_. n)"

text \<open>\<^verbatim>\<open>state[k]\<close>, \<^verbatim>\<open>state.get(k, default)\<close>, \<^verbatim>\<open>state[k] = v\<close> and
  \<^verbatim>\<open>state[k1][k2] = v\<close>.\<close>

definition state_getitem :: "string \<Rightarrow> pyval exec" where
  "state_getitem k = (\<lambda>s. (getitem (PDict s) k, s))"

definition state_get :: "string \<Rightarrow> pyval \<Rightarrow> pyval exec" where
  "state_get k dflt = (\<lambda>s. (dict_get (PDict s) k dflt, s))"

definition state_setitem :: "string \<Rightarrow> pyval \<Rightarrow> unit exec" where
  "state_setitem k v = (\<lambda>s. (Inr (), AList.update k v s))"

definition state_setitem2 :: "string \<Rightarrow> string \<Rightarrow> pyval \<Rightarrow> unit exec" where
  "state_setitem2 k1 k2 v =
     bnd (state_getitem k1) (\<lambda>d.
     bnd (lift (setitem d k2 v)) (\<lambda>d'.
     state_setitem k1 d'))"

section \<open>The collaborators of a node function\<close>

text \<open>
  What a node function obtains from outside the state during one invocation: the
  outcome of the model call inside \<^verbatim>\<open>chain.invoke\<close> (the parsed reply, or a failure with
  its reason), the reading of \<^verbatim>\<open>datetime.now().isoformat()\<close>, and the text Python's
  string formatting gives a value inside the f-string of a history message.
\<close>

record env =
  model_reply :: "string + pyval"
  now :: string
  str_of :: "pyval \<Rightarrow> string"

text \<open>
  \<^verbatim>\<open>ChatPromptTemplate.from_messages\<close> on messages with the given values pasted in. A
  refused template raises when it is built or when the chain is invoked; nothing
  touches the state in between, so the model raises where the prompt is built.
\<close>

definition prompt :: "pyval list \<Rightarrow> unit exec" where
  "prompt pasted = lift (if list_all template_safe pasted then Inr () else Inl ChainError)"

text \<open>The \<^verbatim>\<open>MessagesPlaceholder\<close> of \<^verbatim>\<open>collect_requirements\<close>, filled with the history.\<close>

definition placeholder :: "pyval \<Rightarrow> unit exec" where
  "placeholder history = lift (if chat_history history then Inr () else Inl ChainError)"

text \<open>
  \<^verbatim>\<open>prompt | llm | parser\<close> with \<^verbatim>\<open>llm = state.get("llm")\<close>. The schema has no such field and
  nothing in the sources stores a model in the state; whatever data the key holds
  (\<^verbatim>\<open>None\<close> when it is absent) is no language model, and the chain raises before any
  model is called.
\<close>

definition pipe :: "pyval \<Rightarrow> unit exec" where
  "pipe llm = lift (Inl ChainError)"

text \<open>The model call of \<^verbatim>\<open>chain.invoke\<close>, once the prompt has been accepted.\<close>

definition invoke :: "env \<Rightarrow> pyval exec" where
  "invoke w = lift (case model_reply w of Inl r \<Rightarrow> Inl (ModelCallError r) | Inr v \<Rightarrow> Inr v)"

text \<open>\<^verbatim>\<open>add_to_history(state, actor, message)\<close>: appends one record to
  \<^verbatim>\<open>state["history"]\<close>.\<close>

definition history_entry :: "env \<Rightarrow> string \<Rightarrow> string \<Rightarrow> pyval" where
  "history_entry w actor message =
     PDict [(''actor'', PStr actor), (''message'', PStr message), (''timestamp'', PStr (now w))]"

definition add_to_history :: "env \<Rightarrow> string \<Rightarrow> string \<Rightarrow> unit exec" where
  "add_to_history w actor message =
     bnd (state_getitem ''history'') (\<lambda>h.
     bnd (lift (py_append h (history_entry w actor message))) (\<lambda>h'.
     state_setitem ''history'' h'))"

section \<open>Node functions of \<^verbatim>\<open>development-workflow-agent.py\<close>\<close>

text \<open>
  Each node function reads what its prompt pastes in (a missing key raises), builds the
  prompt, invokes the chain, writes the reply into the state, appends to the history
  and sets \<^verbatim>\<open>current_step\<close>. In \<^verbatim>\<open>collect_requirements\<close> the chain has no parser and the
  value of \<^verbatim>\<open>invoke\<close> stands for \<^verbatim>\<open>response.content\<close>; its prompt pastes nothing and takes
  the history through a placeholder.
\<close>

definition collect_requirements :: "env \<Rightarrow> unit exec" where
  "collect_requirements w =
     bnd (state_get ''history'' (PList [])) (\<lambda>history.
     seq (placeholder history) (
     bnd (invoke w) (\<lambda>content.
     seq (state_setitem2 ''user_inputs'' ''requirements_document'' content) (
     bnd (lift (slice100 content)) (\<lambda>head.
     seq (add_to_history w ''ai'' (''Requirements collected: '' @ str_of w head @ ''...'')) (
     state_setitem ''current_step'' (PStr ''generate_user_stories'')))))))"

definition generate_user_stories :: "env \<Rightarrow> unit exec" where
  "generate_user_stories w =
     bnd (state_getitem ''user_inputs'') (\<lambda>user_inputs.
     bnd (lift (dict_get user_inputs ''requirements_document'' (PStr []))) (\<lambda>requirements.
     seq (prompt [requirements]) (
     bnd (invoke w) (\<lambda>result.
     bnd (lift (getitem result ''user_stories'')) (\<lambda>stories.
     seq (state_setitem ''user_stories'' stories) (
     bnd (lift (getitem result ''user_stories'')) (\<lambda>stories'.
     bnd (lift (py_len stories')) (\<lambda>n.
     seq (add_to_history w ''ai'' (''Generated '' @ str_of w n @ '' user stories'')) (
     state_setitem ''current_step'' (PStr ''product_owner_review''))))))))))"

definition product_owner_review :: "env \<Rightarrow> unit exec" where
  "product_owner_review w =
     bnd (state_getitem ''user_stories'') (\<lambda>user_stories.
     seq (prompt [user_stories]) (
     bnd (invoke w) (\<lambda>result.
     seq (state_setitem2 ''feedback'' ''product_owner'' result) (
     bnd (lift (getitem result ''approved'')) (\<lambda>a.
     seq (add_to_history w ''ai''
            (''Product owner review: '' @ (if truthy a then ''Approved'' else ''Needs revision''))) (
     bnd (lift (getitem result ''approved'')) (\<lambda>a'.
     if truthy a' then state_setitem ''current_step'' (PStr ''create_design_documents'')
     else state_setitem ''current_step'' (PStr ''revise_user_stories''))))))))"

definition revise_user_stories :: "env \<Rightarrow> unit exec" where
  "revise_user_stories w =
     bnd (state_getitem ''user_stories'') (\<lambda>user_stories.
     bnd (state_getitem ''feedback'') (\<lambda>fb.
     bnd (lift (getitem fb ''product_owner'')) (\<lambda>feedback.
     seq (prompt [user_stories, feedback]) (
     bnd (invoke w) (\<lambda>result.
     bnd (lift (getitem result ''user_stories'')) (\<lambda>stories.
     seq (state_setitem ''user_stories'' stories) (
     seq (add_to_history w ''ai'' ''User stories revised based on feedback'') (
     state_setitem ''current_step'' (PStr ''product_owner_review'')))))))))"

definition create_design_documents :: "env \<Rightarrow> unit exec" where
  "create_design_documents w =
     bnd (state_getitem ''user_stories'') (\<lambda>user_stories.
     bnd (state_getitem ''user_inputs'') (\<lambda>user_inputs.
     bnd (lift (dict_get user_inputs ''requirements_document'' (PStr []))) (\<lambda>requirements.
     seq (prompt [requirements, user_stories]) (
     bnd (invoke w) (\<lambda>result.
     seq (state_setitem ''design_documents'' result) (
     seq (add_to_history w ''ai'' ''Design documents created'') (
     state_setitem ''current_step'' (PStr ''design_review''))))))))"

definition design_review :: "env \<Rightarrow> unit exec" where
  "design_review w =
     bnd (state_getitem ''design_documents'') (\<lambda>design_docs.
     seq (prompt [design_docs]) (
     bnd (invoke w) (\<lambda>result.
     seq (state_setitem2 ''feedback'' ''design_review'' result) (
     bnd (lift (getitem result ''approved'')) (\<lambda>a.
     seq (add_to_history w ''ai''
            (''Design review: '' @ (if truthy a then ''Approved'' else ''Needs revision''))) (
     bnd (lift (getitem result ''approved'')) (\<lambda>a'.
     if truthy a' then state_setitem ''current_step'' (PStr ''generate_code'')
     else state_setitem ''current_step'' (PStr ''revise_design_documents''))))))))"

definition revise_design_documents :: "env \<Rightarrow> unit exec" where
  "revise_design_documents w =
     bnd (state_getitem ''design_documents'') (\<lambda>design_docs.
     bnd (state_getitem ''feedback'') (\<lambda>fb.
     bnd (lift (getitem fb ''design_review'')) (\<lambda>feedback.
     seq (prompt [design_docs, feedback]) (
     bnd (invoke w) (\<lambda>result.
     seq (state_setitem ''design_documents'' result) (
     seq (add_to_history w ''ai'' ''Design documents revised based on feedback'') (
     state_setitem ''current_step'' (PStr ''design_review''))))))))"

definition generate_code :: "env \<Rightarrow> unit exec" where
  "generate_code w =
     bnd (state_getitem ''design_documents'') (\<lambda>design_docs.
     bnd (state_getitem ''user_stories'') (\<lambda>user_stories.
     seq (prompt [design_docs, user_stories]) (
     bnd (invoke w) (\<lambda>result.
     seq (state_setitem ''code'' result) (
     seq (add_to_history w ''ai'' ''Code generated for implementation'') (
     state_setitem ''current_step'' (PStr ''code_review'')))))))"

definition code_review :: "env \<Rightarrow> unit exec" where
  "code_review w =
     bnd (state_getitem ''code'') (\<lambda>code.
     seq (prompt [code]) (
     bnd (invoke w) (\<lambda>result.
     seq (state_setitem2 ''feedback'' ''code_review'' result) (
     bnd (lift (getitem result ''approved'')) (\<lambda>a.
     seq (add_to_history w ''ai''
            (''Code review: '' @ (if truthy a then ''Approved'' else ''Needs revision''))) (
     bnd (lift (getitem result ''approved'')) (\<lambda>a'.
     if truthy a' then state_setitem ''current_step'' (PStr ''security_review'')
     else state_setitem ''current_step'' (PStr ''fix_code_after_review''))))))))"

definition fix_code_after_review :: "env \<Rightarrow> unit exec" where
  "fix_code_after_review w =
     bnd (state_getitem ''code'') (\<lambda>code.
     bnd (state_getitem ''feedback'') (\<lambda>fb.
     bnd (lift (getitem fb ''code_review'')) (\<lambda>feedback.
     seq (prompt [code, feedback]) (
     bnd (invoke w) (\<lambda>result.
     seq (state_setitem ''code'' result) (
     seq (add_to_history w ''ai'' ''Code fixed based on review feedback'') (
     state_setitem ''current_step'' (PStr ''code_review''))))))))"

definition security_review :: "env \<Rightarrow> unit exec" where
  "security_review w =
     bnd (state_getitem ''code'') (\<lambda>code.
     seq (prompt [code]) (
     bnd (invoke w) (\<lambda>result.
     seq (state_setitem2 ''feedback'' ''security_review'' result) (
     bnd (lift (getitem result ''approved'')) (\<lambda>a.
     seq (add_to_history w ''ai''
            (''Security review: '' @ (if truthy a then ''Approved'' else ''Security issues found''))) (
     bnd (lift (getitem result ''approved'')) (\<lambda>a'.
     if truthy a' then state_setitem ''current_step'' (PStr ''write_test_cases'')
     else state_setitem ''current_step'' (PStr ''fix_code_after_security''))))))))"

definition fix_code_after_security :: "env \<Rightarrow> unit exec" where
  "fix_code_after_security w =
     bnd (state_getitem ''code'') (\<lambda>code.
     bnd (state_getitem ''feedback'') (\<lambda>fb.
     bnd (lift (getitem fb ''security_review'')) (\<lambda>feedback.
     seq (prompt [code, feedback]) (
     bnd (invoke w) (\<lambda>result.
     seq (state_setitem ''code'' result) (
     seq (add_to_history w ''ai'' ''Code fixed based on security review'') (
     state_setitem ''current_step'' (PStr ''security_review''))))))))"

definition write_test_cases :: "env \<Rightarrow> unit exec" where
  "write_test_cases w =
     bnd (state_getitem ''user_stories'') (\<lambda>user_stories.
     bnd (state_getitem ''code'') (\<lambda>code.
     seq (prompt [code, user_stories]) (
     bnd (invoke w) (\<lambda>result.
     bnd (lift (getitem result ''test_cases'')) (\<lambda>cases.
     seq (state_setitem ''test_cases'' cases) (
     bnd (lift (getitem result ''test_cases'')) (\<lambda>cases'.
     bnd (lift (py_len cases')) (\<lambda>n.
     seq (add_to_history w ''ai'' (''Created '' @ str_of w n @ '' test cases'')) (
     state_setitem ''current_step'' (PStr ''test_cases_review''))))))))))"

definition test_cases_review :: "env \<Rightarrow> unit exec" where
  "test_cases_review w =
     bnd (state_getitem ''test_cases'') (\<lambda>test_cases.
     bnd (state_getitem ''user_stories'') (\<lambda>user_stories.
     seq (prompt [test_cases, user_stories]) (
     bnd (invoke w) (\<lambda>result.
     seq (state_setitem2 ''feedback'' ''test_cases_review'' result) (
     bnd (lift (getitem result ''approved'')) (\<lambda>a.
     seq (add_to_history w ''ai''
            (''Test cases review: '' @ (if truthy a then ''Approved'' else ''Needs revision''))) (
     bnd (lift (getitem result ''approved'')) (\<lambda>a'.
     if truthy a' then state_setitem ''current_step'' (PStr ''qa_testing'')
     else state_setitem ''current_step'' (PStr ''fix_test_cases'')))))))))"

definition fix_test_cases :: "env \<Rightarrow> unit exec" where
  "fix_test_cases w =
     bnd (state_getitem ''test_cases'') (\<lambda>test_cases.
     bnd (state_getitem ''feedback'') (\<lambda>fb.
     bnd (lift (getitem fb ''test_cases_review'')) (\<lambda>feedback.
     seq (prompt [test_cases, feedback]) (
     bnd (invoke w) (\<lambda>result.
     bnd (lift (getitem result ''test_cases'')) (\<lambda>cases.
     seq (state_setitem ''test_cases'' cases) (
     seq (add_to_history w ''ai'' ''Test cases revised based on feedback'') (
     state_setitem ''current_step'' (PStr ''test_cases_review'')))))))))"

definition qa_testing :: "env \<Rightarrow> unit exec" where
  "qa_testing w =
     bnd (state_getitem ''code'') (\<lambda>code.
     bnd (state_getitem ''test_cases'') (\<lambda>test_cases.
     seq (prompt [code, test_cases]) (
     bnd (invoke w) (\<lambda>result.
     seq (state_setitem ''qa_results'' result) (
     bnd (lift (getitem result ''passed'')) (\<lambda>p.
     bnd (lift (getitem result ''pass_rate'')) (\<lambda>rate.
     seq (add_to_history w ''ai''
            (''QA testing: '' @ (if truthy p then ''Passed'' else ''Failed'')
               @ '' with '' @ str_of w rate @ ''% pass rate'')) (
     bnd (lift (getitem result ''passed'')) (\<lambda>a'.
     if truthy a' then state_setitem ''current_step'' (PStr ''deployment'')
     else state_setitem ''current_step'' (PStr ''fix_code_after_qa''))))))))))"

definition fix_code_after_qa :: "env \<Rightarrow> unit exec" where
  "fix_code_after_qa w =
     bnd (state_getitem ''code'') (\<lambda>code.
     bnd (state_getitem ''qa_results'') (\<lambda>qa_results.
     seq (prompt [code, qa_results]) (
     bnd (invoke w) (\<lambda>result.
     seq (state_setitem ''code'' result) (
     seq (add_to_history w ''ai'' ''Code fixed based on QA testing results'') (
     state_setitem ''current_step'' (PStr ''qa_testing'')))))))"

definition deployment :: "env \<Rightarrow> unit exec" where
  "deployment w =
     bnd (state_getitem ''code'') (\<lambda>code.
     seq (prompt [code]) (
     bnd (invoke w) (\<lambda>result.
     seq (state_setitem ''deployment_plan'' result) (
     seq (add_to_history w ''ai'' ''Deployment plan created and executed'') (
     state_setitem ''current_step'' (PStr ''monitoring''))))))"

definition monitoring :: "env \<Rightarrow> unit exec" where
  "monitoring w =
     bnd (state_get ''deployment_plan'' (PDict [])) (\<lambda>deployment_plan.
     seq (prompt [deployment_plan]) (
     bnd (invoke w) (\<lambda>result.
     seq (state_setitem ''monitoring_results'' result) (
     seq (add_to_history w ''ai'' ''Monitoring data collected and analyzed'') (
     state_setitem ''current_step'' (PStr ''maintenance''))))))"

text \<open>
  The source of \<^verbatim>\<open>maintenance\<close> stops inside the declaration of its output schema. Its
  first three statements, the reads, and the prompt it builds from them are in the
  source.
\<close>

definition maintenance_reads :: "(pyval \<times> pyval \<times> pyval) exec" where
  "maintenance_reads =
     bnd (state_getitem ''code'') (\<lambda>code.
     bnd (state_get ''monitoring_results'' (PDict [])) (\<lambda>monitoring_results.
     bnd (lift (dict_get monitoring_results ''user_feedback'' (PDict []))) (\<lambda>user_feedback.
     ret (code, monitoring_results, user_feedback))))"

text \<open>
  Modelled from the spec: the rest of \<^verbatim>\<open>maintenance\<close> (the model call and everything
  after it), which the source file does not contain. By section 4.1 a handler delegates
  to the model, writes the artifact into its field of the state, appends one audit
  entry and sets \<^verbatim>\<open>current_step\<close> to its successor; by section 3 the field is
  \<^verbatim>\<open>maintenance_notes\<close>, a sequence of strings that only grows; by section 4.3 the
  successor is \<^verbatim>\<open>collect_requirements\<close>. The spec gives neither the text of the note
  nor of the audit message: the note is the formatted reply, the message a fixed text.
  The prompt, from the source, pastes the code and the monitoring results.
\<close>

definition maintenance :: "env \<Rightarrow> unit exec" where
  "maintenance w =
     bnd maintenance_reads (\<lambda>(code, monitoring_results, user_feedback).
     seq (prompt [code, monitoring_results]) (
     bnd (invoke w) (\<lambda>result.
     bnd (state_getitem ''maintenance_notes'') (\<lambda>notes.
     bnd (lift (py_append notes (PStr (str_of w result)))) (\<lambda>notes'.
     seq (state_setitem ''maintenance_notes'' notes') (
     seq (add_to_history w ''ai'' ''Maintenance plan created'') (
     state_setitem ''current_step'' (PStr ''collect_requirements''))))))))"

section \<open>Node functions of the modular layout\<close>

text \<open>
  \<^verbatim>\<open>requirements.collect_requirements\<close> (in \<^verbatim>\<open>modular-architecture.py\<close>), which calls no
  model, and the three node functions of \<^verbatim>\<open>user-stories-module.py\<close>. The latter take the
  model from \<^verbatim>\<open>state.get("llm")\<close> and treat the reply as a model instance
  (\<^verbatim>\<open>result.user_stories\<close>, \<^verbatim>\<open>result.approved\<close>, \<^verbatim>\<open>.dict()\<close>).
\<close>

definition requirements_collect_requirements :: "env \<Rightarrow> unit exec" where
  "requirements_collect_requirements w =
     seq (state_setitem2 ''user_inputs'' ''requirements_document''
            (PStr ''Sample requirements document'')) (
     seq (add_to_history w ''ai'' ''Requirements collected'') (
     state_setitem ''current_step'' (PStr ''generate_user_stories'')))"

definition user_stories_generate_user_stories :: "env \<Rightarrow> unit exec" where
  "user_stories_generate_user_stories w =
     bnd (state_getitem ''user_inputs'') (\<lambda>user_inputs.
     bnd (lift (dict_get user_inputs ''requirements_document'' (PStr []))) (\<lambda>requirements.
     seq (prompt [requirements]) (
     bnd (state_get ''llm'' PNone) (\<lambda>llm.
     seq (pipe llm) (
     bnd (invoke w) (\<lambda>result.
     bnd (lift (getattr result ''user_stories'')) (\<lambda>stories.
     bnd (lift (py_iter stories)) (\<lambda>items.
     bnd (lift (dict_each items)) (\<lambda>dicts.
     seq (state_setitem ''user_stories'' (PList dicts)) (
     bnd (lift (getattr result ''user_stories'')) (\<lambda>stories'.
     bnd (lift (py_len stories')) (\<lambda>n.
     seq (add_to_history w ''ai'' (''Generated '' @ str_of w n @ '' user stories'')) (
     state_setitem ''current_step'' (PStr ''product_owner_review''))))))))))))))"

definition user_stories_product_owner_review :: "env \<Rightarrow> unit exec" where
  "user_stories_product_owner_review w =
     bnd (state_getitem ''user_stories'') (\<lambda>user_stories.
     seq (prompt [user_stories]) (
     bnd (state_get ''llm'' PNone) (\<lambda>llm.
     seq (pipe llm) (
     bnd (invoke w) (\<lambda>result.
     bnd (lift (model_dict result)) (\<lambda>d.
     seq (state_setitem2 ''feedback'' ''product_owner'' d) (
     bnd (lift (getattr result ''approved'')) (\<lambda>a.
     seq (add_to_history w ''ai''
            (''Product owner review: '' @ (if truthy a then ''Approved'' else ''Needs revision''))) (
     bnd (lift (getattr result ''approved'')) (\<lambda>a'.
     if truthy a' then state_setitem ''current_step'' (PStr ''create_design_documents'')
     else state_setitem ''current_step'' (PStr ''revise_user_stories'')))))))))))"

definition user_stories_revise_user_stories :: "env \<Rightarrow> unit exec" where
  "user_stories_revise_user_stories w =
     bnd (state_getitem ''user_stories'') (\<lambda>user_stories.
     bnd (state_getitem ''feedback'') (\<lambda>fb.
     bnd (lift (getitem fb ''product_owner'')) (\<lambda>feedback.
     seq (prompt [user_stories, feedback]) (
     bnd (state_get ''llm'' PNone) (\<lambda>llm.
     seq (pipe llm) (
     bnd (invoke w) (\<lambda>result.
     bnd (lift (getattr result ''user_stories'')) (\<lambda>stories.
     bnd (lift (py_iter stories)) (\<lambda>items.
     bnd (lift (dict_each items)) (\<lambda>dicts.
     seq (state_setitem ''user_stories'' (PList dicts)) (
     seq (add_to_history w ''ai'' ''User stories revised based on feedback'') (
     state_setitem ''current_step'' (PStr ''product_owner_review'')))))))))))))"

section \<open>The workflow graph of \<^verbatim>\<open>modular-architecture.py\<close>\<close>

text \<open>
  A \<^verbatim>\<open>StateGraph\<close> under construction: the registered node functions, the unconditional
  edges, the conditional edges (each a function from the state to the name of the next
  node) and the entry point.
\<close>

record graph =
  nodes :: "(string \<times> (env \<Rightarrow> unit exec)) list"
  edges :: "(string \<times> string) list"
  branches :: "(string \<times> (state \<Rightarrow> error + string)) list"
  entry_point :: "string option"

definition empty_graph :: graph where
  "empty_graph = \<lparr>nodes = [], edges = [], branches = [], entry_point = None\<rparr>"

definition add_node :: "string \<Rightarrow> (env \<Rightarrow> unit exec) \<Rightarrow> graph \<Rightarrow> graph" where
  "add_node name f g = g\<lparr>nodes := nodes g @ [(name, f)]\<rparr>"

definition add_edge :: "string \<Rightarrow> string \<Rightarrow> graph \<Rightarrow> graph" where
  "add_edge src dst g = g\<lparr>edges := edges g @ [(src, dst)]\<rparr>"

definition add_conditional_edges :: "string \<Rightarrow> (state \<Rightarrow> error + string) \<Rightarrow> graph \<Rightarrow> graph" where
  "add_conditional_edges src path g = g\<lparr>branches := branches g @ [(src, path)]\<rparr>"

definition set_entry_point :: "string \<Rightarrow> graph \<Rightarrow> graph" where
  "set_entry_point name g = g\<lparr>entry_point := Some name\<rparr>"

text \<open>
  The five decision functions on review feedback have one shape,
  \<^verbatim>\<open>fwd if state["feedback"].get(key, {}).get("approved", False) else fix\<close>.
\<close>

definition approval_route :: "string \<Rightarrow> string \<Rightarrow> string \<Rightarrow> state \<Rightarrow> error + string" where
  "approval_route key fwd fix s =
     (case getitem (PDict s) ''feedback'' of
        Inl e \<Rightarrow> Inl e
      | Inr fb \<Rightarrow>
          (case dict_get fb key (PDict []) of
             Inl e \<Rightarrow> Inl e
           | Inr review \<Rightarrow>
               (case dict_get review ''approved'' (PBool False) of
                  Inl e \<Rightarrow> Inl e
                | Inr a \<Rightarrow> Inr (if truthy a then fwd else fix))))"

definition product_owner_review_decision :: "state \<Rightarrow> error + string" where
  "product_owner_review_decision =
     approval_route ''product_owner'' ''create_design_documents'' ''revise_user_stories''"

definition design_review_decision :: "state \<Rightarrow> error + string" where
  "design_review_decision =
     approval_route ''design_review'' ''generate_code'' ''revise_design_documents''"

definition code_review_decision :: "state \<Rightarrow> error + string" where
  "code_review_decision =
     approval_route ''code_review'' ''security_review'' ''fix_code_after_review''"

definition security_review_decision :: "state \<Rightarrow> error + string" where
  "security_review_decision =
     approval_route ''security_review'' ''write_test_cases'' ''fix_code_after_security''"

definition test_cases_review_decision :: "state \<Rightarrow> error + string" where
  "test_cases_review_decision =
     approval_route ''test_cases_review'' ''qa_testing'' ''fix_test_cases''"

text \<open>\<^verbatim>\<open>"deployment" if state["qa_results"].get("passed", False) else "fix_code_after_qa"\<close>.\<close>

definition qa_testing_decision :: "state \<Rightarrow> error + string" where
  "qa_testing_decision s =
     (case getitem (PDict s) ''qa_results'' of
        Inl e \<Rightarrow> Inl e
      | Inr qa \<Rightarrow>
          (case dict_get qa ''passed'' (PBool False) of
             Inl e \<Rightarrow> Inl e
           | Inr p \<Rightarrow> Inr (if truthy p then ''deployment'' else ''fix_code_after_qa'')))"

text \<open>
  \<^verbatim>\<open>create_development_workflow\<close>. The modules \<^verbatim>\<open>design\<close>, \<^verbatim>\<open>code\<close>, \<^verbatim>\<open>testing\<close> and
  \<^verbatim>\<open>deployment\<close> it imports are the node functions of those names above.
\<close>

definition create_development_workflow :: graph where
  "create_development_workflow = foldl (\<lambda>g build. build g) empty_graph
     [add_node ''collect_requirements'' requirements_collect_requirements,
      add_node ''generate_user_stories'' user_stories_generate_user_stories,
      add_node ''product_owner_review'' user_stories_product_owner_review,
      add_node ''revise_user_stories'' user_stories_revise_user_stories,
      add_node ''create_design_documents'' create_design_documents,
      add_node ''design_review'' design_review,
      add_node ''revise_design_documents'' revise_design_documents,
      add_node ''generate_code'' generate_code,
      add_node ''code_review'' code_review,
      add_node ''fix_code_after_review'' fix_code_after_review,
      add_node ''security_review'' security_review,
      add_node ''fix_code_after_security'' fix_code_after_security,
      add_node ''write_test_cases'' write_test_cases,
      add_node ''test_cases_review'' test_cases_review,
      add_node ''fix_test_cases'' fix_test_cases,
      add_node ''qa_testing'' qa_testing,
      add_node ''fix_code_after_qa'' fix_code_after_qa,
      add_node ''deployment'' deployment,
      add_node ''monitoring'' monitoring,
      add_node ''maintenance'' maintenance,
      add_edge ''collect_requirements'' ''generate_user_stories'',
      add_edge ''generate_user_stories'' ''product_owner_review'',
      add_conditional_edges ''product_owner_review'' product_owner_review_decision,
      add_edge ''revise_user_stories'' ''product_owner_review'',
      add_edge ''create_design_documents'' ''design_review'',
      add_conditional_edges ''design_review'' design_review_decision,
      add_edge ''revise_design_documents'' ''design_review'',
      add_edge ''generate_code'' ''code_review'',
      add_conditional_edges ''code_review'' code_review_decision,
      add_edge ''fix_code_after_review'' ''code_review'',
      add_conditional_edges ''security_review'' security_review_decision,
      add_edge ''fix_code_after_security'' ''security_review'',
      add_edge ''write_test_cases'' ''test_cases_review'',
      add_conditional_edges ''test_cases_review'' test_cases_review_decision,
      add_edge ''fix_test_cases'' ''test_cases_review'',
      add_conditional_edges ''qa_testing'' qa_testing_decision,
      add_edge ''fix_code_after_qa'' ''qa_testing'',
      add_edge ''deployment'' ''monitoring'',
      add_edge ''monitoring'' ''maintenance'',
      add_edge ''maintenance'' ''collect_requirements'',
      set_entry_point ''collect_requirements'']"

text \<open>
  The step after node \<open>n\<close> has run: the conditional edge of \<open>n\<close> applied to the state if
  \<open>n\<close> has one, its unconditional edge otherwise.
\<close>

definition resolve_next :: "graph \<Rightarrow> string \<Rightarrow> state \<Rightarrow> error + string" where
  "resolve_next g n s =
     (case map_of (branches g) n of
        Some path \<Rightarrow> path s
      | None \<Rightarrow> (case map_of (edges g) n of Some dst \<Rightarrow> Inr dst | None \<Rightarrow> Inl (UnknownStepError n)))"

text \<open>The terminal marker \<^verbatim>\<open>END\<close> of the graph library.\<close>

definition END :: string where
  "END = ''__end__''"


definition initial_state :: state where
  "initial_state =
     [(''user_inputs'', PDict []), (''user_stories'', PList []), (''design_documents'', PDict []),
      (''code'', PDict []), (''test_cases'', PList []), (''qa_results'', PDict []),
      (''maintenance_notes'', PList []), (''current_step'', PStr ''collect_requirements''),
      (''history'', PList []), (''feedback'', PDict [])]"

text \<open>
  Modelled from the spec: the Executor of section 4.3, which in the repository is the
  graph library's runtime and not part of the sources. One iteration looks up the
  handler of \<^verbatim>\<open>current_step\<close> (an unknown step fails), invokes it, resolves the next
  step on the updated state and writes it into \<^verbatim>\<open>current_step\<close>. The run takes one
  \<open>env\<close> per iteration, so their number is the caller's iteration budget; it stops
  earlier at the terminal marker or at the first failure. It returns the steps whose
  iteration completed, the outcome and the state.
\<close>

definition exec_step :: "graph \<Rightarrow> string \<Rightarrow> env \<Rightarrow> unit exec" where
  "exec_step g name w =
     (case map_of (nodes g) name of
        None \<Rightarrow> lift (Inl (UnknownStepError name))
      | Some handler \<Rightarrow>
          seq (handler w) (
          bnd (\<lambda>s. (resolve_next g name s, s)) (\<lambda>next.
          state_setitem ''current_step'' (PStr next))))"

text \<open>
  Modelled from the spec: the loop of the Executor of section 4.3, one iteration per
  \<open>env\<close> of the budget.
\<close>

fun run :: "graph \<Rightarrow> env list \<Rightarrow> state \<Rightarrow> string list \<times> (error + unit) \<times> state" where
  "run g [] s = ([], Inr (), s)"
| "run g (w # ws) s =
     (case getitem (PDict s) ''current_step'' of
        Inl e \<Rightarrow> ([], Inl e, s)
      | Inr (PStr name) \<Rightarrow>
          if name = END then ([], Inr (), s)
          else (case exec_step g name w s of
                  (Inl e, s') \<Rightarrow> ([], Inl e, s')
                | (Inr u, s') \<Rightarrow> (case run g ws s' of (visited, r) \<Rightarrow> (name # visited, r)))
      | Inr other \<Rightarrow> ([], Inl TypeError, s))"

text \<open>\<open>n\<close> handler invocations in a row, each with its own collaborators.\<close>

fun invoke_all :: "((env \<Rightarrow> unit exec) \<times> env) list \<Rightarrow> unit exec" where
  "invoke_all [] = ret ()"
| "invoke_all ((h, w) # rest) = seq (h w) (invoke_all rest)"

section \<open>Notions the properties are stated with\<close>

fun is_dict :: "pyval \<Rightarrow> bool" where
  "is_dict (PDict d) = True"
| "is_dict _ = False"

text \<open>A history record has exactly the keys \<^verbatim>\<open>actor\<close>, \<^verbatim>\<open>message\<close> and \<^verbatim>\<open>timestamp\<close>.\<close>

definition history_record :: "pyval \<Rightarrow> bool" where
  "history_record e =
     (case e of PDict d \<Rightarrow> map fst d = [''actor'', ''message'', ''timestamp''] | _ \<Rightarrow> False)"

text \<open>\<^verbatim>\<open>state["feedback"][key]\<close> and the flags the decision functions test, where present.\<close>

definition feedback_of :: "state \<Rightarrow> string \<Rightarrow> pyval option" where
  "feedback_of s key = (case map_of s ''feedback'' of Some (PDict fb) \<Rightarrow> map_of fb key | _ \<Rightarrow> None)"

definition approved_flag :: "state \<Rightarrow> string \<Rightarrow> pyval option" where
  "approved_flag s key =
     (case feedback_of s key of Some (PDict review) \<Rightarrow> map_of review ''approved'' | _ \<Rightarrow> None)"

definition passed_flag :: "state \<Rightarrow> pyval option" where
  "passed_flag s =
     (case map_of s ''qa_results'' of Some (PDict qa) \<Rightarrow> map_of qa ''passed'' | _ \<Rightarrow> None)"

text \<open>
  When a decision function can read what it inspects: the feedback mapping is a
  dictionary and the record under the key, if there is one, is a dictionary; for the
  QA gate, \<^verbatim>\<open>qa_results\<close> is a dictionary.
\<close>

definition review_readable :: "state \<Rightarrow> string \<Rightarrow> bool" where
  "review_readable s key =
     (case map_of s ''feedback'' of
        Some (PDict fb) \<Rightarrow> (case map_of fb key of Some review \<Rightarrow> is_dict review | None \<Rightarrow> True)
      | _ \<Rightarrow> False)"

definition qa_readable :: "state \<Rightarrow> bool" where
  "qa_readable s = (case map_of s ''qa_results'' of Some qa \<Rightarrow> is_dict qa | None \<Rightarrow> False)"

text \<open>
  The shape of the state the decision functions rely on: \<^verbatim>\<open>feedback\<close> is a dictionary of
  dictionaries and \<^verbatim>\<open>qa_results\<close> is a dictionary.
\<close>

definition routable :: "state \<Rightarrow> bool" where
  "routable s =
     ((case map_of s ''feedback'' of
         Some (PDict fb) \<Rightarrow> list_all (\<lambda>p. is_dict (snd p)) fb
       | _ \<Rightarrow> False)
      \<and> (case map_of s ''qa_results'' of Some qa \<Rightarrow> is_dict qa | None \<Rightarrow> False))"

text \<open>The names registered in the workflow graph.\<close>

definition step_names :: "string list" where
  "step_names = map fst (nodes create_development_workflow)"

text \<open>All node functions of the sources, and those among them that call the model
  (\<^verbatim>\<open>requirements.collect_requirements\<close> writes a fixed sample document instead).\<close>

definition model_handlers :: "(env \<Rightarrow> unit exec) list" where
  "model_handlers =
     [collect_requirements, generate_user_stories, product_owner_review, revise_user_stories,
      create_design_documents, design_review, revise_design_documents, generate_code,
      code_review, fix_code_after_review, security_review, fix_code_after_security,
      write_test_cases, test_cases_review, fix_test_cases, qa_testing, fix_code_after_qa,
      deployment, monitoring, maintenance, user_stories_generate_user_stories,
      user_stories_product_owner_review, user_stories_revise_user_stories]"

definition handlers :: "(env \<Rightarrow> unit exec) list" where
  "handlers = requirements_collect_requirements # model_handlers"

text \<open>The states the workflow can be in: the initial state, and the state after any
  registered node function has returned on such a state.\<close>

inductive reachable :: "state \<Rightarrow> bool" where
  init: "reachable initial_state"
| step: "reachable s \<Longrightarrow> (name, h) \<in> set (nodes create_development_workflow) \<Longrightarrow>
         h w s = (Inr (), s') \<Longrightarrow> reachable s'"

text \<open>The truth value of \<^verbatim>\<open>result[name]\<close> of a reply, false where there is none.\<close>

definition flag_of :: "pyval \<Rightarrow> string \<Rightarrow> bool" where
  "flag_of result name = (case getitem result name of Inr a \<Rightarrow> truthy a | Inl e \<Rightarrow> False)"

text \<open>
  Modelled from the spec: the test double of the happy-path scenario of section 8, which
  the sources do not contain: a node function that does nothing.
\<close>

definition stub :: "env \<Rightarrow> unit exec" where
  "stub w = ret ()"

text \<open>
  Modelled from the spec: the graph of the happy-path scenario, every node function
  replaced by the test double, so that a run shows the routing alone. The edges and the
  decisions of the gates are those of the graph and see the flags of the state.
\<close>

definition stubbed :: "graph \<Rightarrow> graph" where
  "stubbed g = g\<lparr>nodes := map (\<lambda>p. (fst p, stub)) (nodes g)\<rparr>"

section \<open>Concrete inputs\<close>

text \<open>Collaborators: a clock reading and a formatting that shows nothing of the value,
  with a reply of the model or with a failure of the call.\<close>

definition reply :: "pyval \<Rightarrow> env" where
  "reply v = \<lparr>model_reply = Inr v, now = ''2025-01-01T00:00:00'', str_of = (\<lambda>v. ''_'')\<rparr>"

definition failure :: "string \<Rightarrow> env" where
  "failure r = \<lparr>model_reply = Inl r, now = ''2025-01-01T00:00:00'', str_of = (\<lambda>v. ''_'')\<rparr>"

text \<open>Replies: a review that approves, one that rejects, a QA result, a revised list of
  two stories, a generated list of one story given as text, and a reply that has every
  key any node function asks for.\<close>

definition approval :: pyval where
  "approval = PDict [(''approved'', PBool True), (''feedback'', PDict [])]"

definition rejection :: pyval where
  "rejection = PDict [(''approved'', PBool False), (''feedback'', PDict [])]"

definition revision :: pyval where
  "revision =
     PDict [(''user_stories'',
             PList [PDict [(''id'', PStr ''US-001'')], PDict [(''id'', PStr ''US-002'')]])]"

definition one_story :: pyval where
  "one_story = PDict [(''user_stories'', PList [PStr ''As a user, I want to sign in''])]"

definition full_reply :: pyval where
  "full_reply =
     PDict [(''user_stories'', PList [PDict [(''id'', PStr ''US-001'')]]),
            (''approved'', PBool False),
            (''test_cases'', PList [PDict [(''id'', PStr ''TC-001'')]]),
            (''passed'', PBool True),
            (''pass_rate'', PInt 100)]"

text \<open>A state in which the reviews alternate between approval and rejection and QA fails.\<close>

definition rejecting_state :: state where
  "rejecting_state =
     [(''feedback'', PDict [(''product_owner'', PDict [(''approved'', PBool True)]),
                           (''design_review'', PDict [(''approved'', PBool False)]),
                           (''code_review'', PDict [(''approved'', PBool True)]),
                           (''security_review'', PDict [(''approved'', PBool False)]),
                           (''test_cases_review'', PDict [(''approved'', PBool True)])]),
      (''qa_results'', PDict [(''passed'', PBool False)])]"

text \<open>The initial state with every review approved and QA passed.\<close>

definition approving_state :: state where
  "approving_state =
     [(''user_inputs'', PDict []), (''user_stories'', PList []), (''design_documents'', PDict []),
      (''code'', PDict []), (''test_cases'', PList []),
      (''qa_results'', PDict [(''passed'', PBool True)]),
      (''maintenance_notes'', PList []), (''current_step'', PStr ''collect_requirements''),
      (''history'', PList []),
      (''feedback'', PDict [(''product_owner'', PDict [(''approved'', PBool True)]),
                           (''design_review'', PDict [(''approved'', PBool True)]),
                           (''code_review'', PDict [(''approved'', PBool True)]),
                           (''security_review'', PDict [(''approved'', PBool True)]),
                           (''test_cases_review'', PDict [(''approved'', PBool True)])])]"

text \<open>An iteration budget of fourteen for the Executor.\<close>

definition fourteen :: "env list" where
  "fourteen =
     [reply PNone, reply PNone, reply PNone, reply PNone, reply PNone, reply PNone, reply PNone,
      reply PNone, reply PNone, reply PNone, reply PNone, reply PNone, reply PNone, reply PNone]"

text \<open>
  A state in which every artifact is text or a list of texts, so that every prompt of
  \<^verbatim>\<open>development-workflow-agent.py\<close> that does not paste a dictionary is accepted; and the
  same state after monitoring has stored its results.
\<close>

definition plain_feedback :: "(string \<times> pyval) list" where
  "plain_feedback =
     [(''product_owner'', PStr ''Add acceptance criteria''),
      (''design_review'', PStr ''Describe the data model''),
      (''code_review'', PStr ''Handle the error case''),
      (''security_review'', PStr ''Validate the input''),
      (''test_cases_review'', PStr ''Cover the failure path'')]"

definition plain_state :: state where
  "plain_state =
     [(''user_inputs'', PDict [(''requirements_document'', PStr ''Sample requirements document'')]),
      (''user_stories'', PList [PStr ''As a user, I want to sign in'']),
      (''design_documents'', PStr ''Three-tier web application''),
      (''code'', PStr ''def main(): pass''),
      (''test_cases'', PList [PStr ''Sign in with a valid password'']),
      (''qa_results'', PStr ''One of three tests failed''),
      (''maintenance_notes'', PList []),
      (''current_step'', PStr ''collect_requirements''),
      (''history'', PList []),
      (''feedback'', PDict plain_feedback),
      (''deployment_plan'', PStr ''Blue-green deployment'')]"


text \<open>
  The state after \<^verbatim>\<open>requirements.collect_requirements\<close>, \<^verbatim>\<open>generate_user_stories\<close> with a
  story given as text and \<^verbatim>\<open>product_owner_review\<close> with a rejection have run on the
  initial state, and these three calls.
\<close>

definition two_calls :: "((env \<Rightarrow> unit exec) \<times> env) list" where
  "two_calls =
     [(requirements_collect_requirements, reply PNone), (generate_user_stories, reply one_story)]"

definition rejected_calls :: "((env \<Rightarrow> unit exec) \<times> env) list" where
  "rejected_calls =
     [(requirements_collect_requirements, reply PNone), (generate_user_stories, reply one_story),
      (product_owner_review, reply rejection)]"

definition rejected_state :: state where
  "rejected_state =
     [(''user_inputs'', PDict [(''requirements_document'', PStr ''Sample requirements document'')]),
      (''user_stories'', PList [PStr ''As a user, I want to sign in'']),
      (''design_documents'', PDict []), (''code'', PDict []), (''test_cases'', PList []),
      (''qa_results'', PDict []), (''maintenance_notes'', PList []),
      (''current_step'', PStr ''revise_user_stories''),
      (''history'',
       PList [history_entry (reply PNone) ''ai'' ''Requirements collected'',
              history_entry (reply PNone) ''ai'' ''Generated _ user stories'',
              history_entry (reply PNone) ''ai'' ''Product owner review: Needs revision'']),
      (''feedback'', PDict [(''product_owner'', rejection)])]"

section \<open>The structure of the graph\<close>

lemmas build_defs = create_development_workflow_def empty_graph_def add_node_def add_edge_def
  add_conditional_edges_def set_entry_point_def

lemma workflow_edges:
  "edges create_development_workflow =
     [(''collect_requirements'', ''generate_user_stories''),
      (''generate_user_stories'', ''product_owner_review''),
      (''revise_user_stories'', ''product_owner_review''),
      (''create_design_documents'', ''design_review''),
      (''revise_design_documents'', ''design_review''),
      (''generate_code'', ''code_review''),
      (''fix_code_after_review'', ''code_review''),
      (''fix_code_after_security'', ''security_review''),
      (''write_test_cases'', ''test_cases_review''),
      (''fix_test_cases'', ''test_cases_review''),
      (''fix_code_after_qa'', ''qa_testing''),
      (''deployment'', ''monitoring''),
      (''monitoring'', ''maintenance''),
      (''maintenance'', ''collect_requirements'')]"
  by (simp add: build_defs)

lemma workflow_branches:
  "branches create_development_workflow =
     [(''product_owner_review'', product_owner_review_decision),
      (''design_review'', design_review_decision),
      (''code_review'', code_review_decision),
      (''security_review'', security_review_decision),
      (''test_cases_review'', test_cases_review_decision),
      (''qa_testing'', qa_testing_decision)]"
  by (simp add: build_defs)

lemma workflow_nodes:
  "nodes create_development_workflow =
     [(''collect_requirements'', requirements_collect_requirements),
      (''generate_user_stories'', user_stories_generate_user_stories),
      (''product_owner_review'', user_stories_product_owner_review),
      (''revise_user_stories'', user_stories_revise_user_stories),
      (''create_design_documents'', create_design_documents),
      (''design_review'', design_review),
      (''revise_design_documents'', revise_design_documents),
      (''generate_code'', generate_code),
      (''code_review'', code_review),
      (''fix_code_after_review'', fix_code_after_review),
      (''security_review'', security_review),
      (''fix_code_after_security'', fix_code_after_security),
      (''write_test_cases'', write_test_cases),
      (''test_cases_review'', test_cases_review),
      (''fix_test_cases'', fix_test_cases),
      (''qa_testing'', qa_testing),
      (''fix_code_after_qa'', fix_code_after_qa),
      (''deployment'', deployment),
      (''monitoring'', monitoring),
      (''maintenance'', maintenance)]"
  by (simp add: build_defs)

lemma step_names_eq:
  "step_names =
     [''collect_requirements'', ''generate_user_stories'', ''product_owner_review'',
      ''revise_user_stories'', ''create_design_documents'', ''design_review'',
      ''revise_design_documents'', ''generate_code'', ''code_review'', ''fix_code_after_review'',
      ''security_review'', ''fix_code_after_security'', ''write_test_cases'',
      ''test_cases_review'', ''fix_test_cases'', ''qa_testing'', ''fix_code_after_qa'',
      ''deployment'', ''monitoring'', ''maintenance'']"
  by (simp add: step_names_def workflow_nodes)

lemmas decision_defs = product_owner_review_decision_def design_review_decision_def
  code_review_decision_def security_review_decision_def test_cases_review_decision_def

lemma resolve_next_branch:
  "map_of (branches g) n = Some path \<Longrightarrow> resolve_next g n s = path s"
  by (simp add: resolve_next_def)

lemma resolve_next_edge:
  "map_of (branches g) n = None \<Longrightarrow> map_of (edges g) n = Some dst \<Longrightarrow> resolve_next g n s = Inr dst"
  by (simp add: resolve_next_def)

lemma resolve_gates:
  "resolve_next create_development_workflow ''product_owner_review'' s = product_owner_review_decision s"
  "resolve_next create_development_workflow ''design_review'' s = design_review_decision s"
  "resolve_next create_development_workflow ''code_review'' s = code_review_decision s"
  "resolve_next create_development_workflow ''security_review'' s = security_review_decision s"
  "resolve_next create_development_workflow ''test_cases_review'' s = test_cases_review_decision s"
  "resolve_next create_development_workflow ''qa_testing'' s = qa_testing_decision s"
  by (simp_all add: resolve_next_def workflow_branches)

lemma resolve_edges:
  "resolve_next create_development_workflow ''collect_requirements'' s = Inr ''generate_user_stories''"
  "resolve_next create_development_workflow ''generate_user_stories'' s = Inr ''product_owner_review''"
  "resolve_next create_development_workflow ''revise_user_stories'' s = Inr ''product_owner_review''"
  "resolve_next create_development_workflow ''create_design_documents'' s = Inr ''design_review''"
  "resolve_next create_development_workflow ''revise_design_documents'' s = Inr ''design_review''"
  "resolve_next create_development_workflow ''generate_code'' s = Inr ''code_review''"
  "resolve_next create_development_workflow ''fix_code_after_review'' s = Inr ''code_review''"
  "resolve_next create_development_workflow ''fix_code_after_security'' s = Inr ''security_review''"
  "resolve_next create_development_workflow ''write_test_cases'' s = Inr ''test_cases_review''"
  "resolve_next create_development_workflow ''fix_test_cases'' s = Inr ''test_cases_review''"
  "resolve_next create_development_workflow ''fix_code_after_qa'' s = Inr ''qa_testing''"
  "resolve_next create_development_workflow ''deployment'' s = Inr ''monitoring''"
  "resolve_next create_development_workflow ''monitoring'' s = Inr ''maintenance''"
  "resolve_next create_development_workflow ''maintenance'' s = Inr ''collect_requirements''"
  by (simp_all add: resolve_next_def workflow_branches workflow_edges)

lemma approval_route_flag:
  "approved_flag s key = Some a \<Longrightarrow> approval_route key fwd fix s = Inr (if truthy a then fwd else fix)"
  by (auto simp: approved_flag_def feedback_of_def approval_route_def
           split: option.splits pyval.splits)

lemma approval_route_absent:
  "map_of s ''feedback'' = Some (PDict fb) \<Longrightarrow> map_of fb key = None \<Longrightarrow>
   approval_route key fwd fix s = Inr fix"
  by (simp add: approval_route_def)

lemma is_dict_iff: "is_dict v \<longleftrightarrow> (\<exists>d. v = PDict d)"
  by (cases v) simp_all

lemma dict_get_raises: "isl (dict_get v k d) \<longleftrightarrow> \<not> is_dict v"
  by (cases v) simp_all

lemma isl_route: "isl (case r of Inl e \<Rightarrow> Inl e | Inr a \<Rightarrow> Inr (f a)) \<longleftrightarrow> isl r"
  by (cases r) simp_all

lemma approval_route_raises:
  "isl (approval_route key fwd fix s) \<longleftrightarrow> \<not> review_readable s key"
  by (auto simp: approval_route_def review_readable_def isl_route dict_get_raises
           split: option.splits pyval.splits)

lemma qa_testing_decision_absent:
  "map_of s ''qa_results'' = Some (PDict qa) \<Longrightarrow> map_of qa ''passed'' = None \<Longrightarrow>
   qa_testing_decision s = Inr ''fix_code_after_qa''"
  by (simp add: qa_testing_decision_def)

lemma qa_testing_decision_raises: "isl (qa_testing_decision s) \<longleftrightarrow> \<not> qa_readable s"
  by (auto simp: qa_testing_decision_def qa_readable_def isl_route dict_get_raises
           split: option.splits)

lemma qa_testing_decision_flag:
  "passed_flag s = Some p \<Longrightarrow>
   qa_testing_decision s = Inr (if truthy p then ''deployment'' else ''fix_code_after_qa'')"
  by (auto simp: passed_flag_def qa_testing_decision_def split: option.splits pyval.splits)

section \<open>Resolving the next step\<close>

text \<open>
  C1, as the code has it. The claim asks for a \<^verbatim>\<open>MissingFeedbackError\<close> when the review
  record a gate's decision function inspects is absent. The decision functions read
  with \<^verbatim>\<open>.get(key, {}).get("approved", False)\<close>: in the initial state, where no review
  has been written, the step after \<^verbatim>\<open>design_review\<close> resolves to
  \<^verbatim>\<open>revise_design_documents\<close> and nothing is raised.
\<close>

theorem missing_feedback_counterexample:
  "feedback_of initial_state ''design_review'' = None
   \<and> resolve_next create_development_workflow ''design_review'' initial_state
       = Inr ''revise_design_documents''"
  by (simp add: resolve_gates decision_defs approval_route_def feedback_of_def initial_state_def)

text \<open>
  C1, amended: when the review record of a gate is absent from the feedback mapping
  (for \<^verbatim>\<open>qa_testing\<close>: when \<^verbatim>\<open>qa_results\<close> has no entry \<^verbatim>\<open>passed\<close>), resolving the next step
  does not fail: it yields the gate's fix/revise step. The resolution raises exactly
  when the decision function cannot read what it inspects: the feedback mapping is
  missing from the state or is no dictionary, or the record under the key is no
  dictionary; for \<^verbatim>\<open>qa_testing\<close>, \<^verbatim>\<open>qa_results\<close> is missing or is no dictionary.
\<close>

theorem missing_feedback_defaults_to_fix:
  "(map_of s ''feedback'' = Some (PDict fb) \<longrightarrow> map_of fb ''product_owner'' = None \<longrightarrow>
      resolve_next create_development_workflow ''product_owner_review'' s
        = Inr ''revise_user_stories'')
   \<and> (map_of s ''feedback'' = Some (PDict fb) \<longrightarrow> map_of fb ''design_review'' = None \<longrightarrow>
      resolve_next create_development_workflow ''design_review'' s
        = Inr ''revise_design_documents'')
   \<and> (map_of s ''feedback'' = Some (PDict fb) \<longrightarrow> map_of fb ''code_review'' = None \<longrightarrow>
      resolve_next create_development_workflow ''code_review'' s
        = Inr ''fix_code_after_review'')
   \<and> (map_of s ''feedback'' = Some (PDict fb) \<longrightarrow> map_of fb ''security_review'' = None \<longrightarrow>
      resolve_next create_development_workflow ''security_review'' s
        = Inr ''fix_code_after_security'')
   \<and> (map_of s ''feedback'' = Some (PDict fb) \<longrightarrow> map_of fb ''test_cases_review'' = None \<longrightarrow>
      resolve_next create_development_workflow ''test_cases_review'' s
        = Inr ''fix_test_cases'')
   \<and> (map_of s ''qa_results'' = Some (PDict qa) \<longrightarrow> map_of qa ''passed'' = None \<longrightarrow>
      resolve_next create_development_workflow ''qa_testing'' s = Inr ''fix_code_after_qa'')
   \<and> (isl (resolve_next create_development_workflow ''product_owner_review'' s)
        \<longleftrightarrow> \<not> review_readable s ''product_owner'')
   \<and> (isl (resolve_next create_development_workflow ''design_review'' s)
        \<longleftrightarrow> \<not> review_readable s ''design_review'')
   \<and> (isl (resolve_next create_development_workflow ''code_review'' s)
        \<longleftrightarrow> \<not> review_readable s ''code_review'')
   \<and> (isl (resolve_next create_development_workflow ''security_review'' s)
        \<longleftrightarrow> \<not> review_readable s ''security_review'')
   \<and> (isl (resolve_next create_development_workflow ''test_cases_review'' s)
        \<longleftrightarrow> \<not> review_readable s ''test_cases_review'')
   \<and> (isl (resolve_next create_development_workflow ''qa_testing'' s) \<longleftrightarrow> \<not> qa_readable s)"
  by (simp add: resolve_gates decision_defs approval_route_absent approval_route_raises
        qa_testing_decision_absent qa_testing_decision_raises)

theorem missing_feedback_defaults_to_fix_witness:
  "resolve_next create_development_workflow ''product_owner_review'' initial_state
     = Inr ''revise_user_stories''
   \<and> resolve_next create_development_workflow ''design_review'' initial_state
     = Inr ''revise_design_documents''
   \<and> resolve_next create_development_workflow ''code_review'' initial_state
     = Inr ''fix_code_after_review''
   \<and> resolve_next create_development_workflow ''security_review'' initial_state
     = Inr ''fix_code_after_security''
   \<and> resolve_next create_development_workflow ''test_cases_review'' initial_state
     = Inr ''fix_test_cases''
   \<and> resolve_next create_development_workflow ''qa_testing'' initial_state
     = Inr ''fix_code_after_qa''
   \<and> isl (resolve_next create_development_workflow ''design_review''
            [(''qa_results'', PDict [])])
   \<and> isl (resolve_next create_development_workflow ''qa_testing''
            [(''feedback'', PDict []), (''qa_results'', PNone)])
   \<and> \<not> isl (resolve_next create_development_workflow ''code_review'' rejecting_state)"
proof -
  have fb: "map_of initial_state ''feedback'' = Some (PDict [])"
    and qa: "map_of initial_state ''qa_results'' = Some (PDict [])"
    by (simp_all add: initial_state_def)
  have none: "map_of [] k = (None :: pyval option)" for k :: string
    by simp
  have a: "\<not> review_readable [(''qa_results'', PDict [])] ''design_review''"
    and b: "\<not> qa_readable [(''feedback'', PDict []), (''qa_results'', PNone)]"
    and c: "review_readable rejecting_state ''code_review''"
    by (simp_all add: review_readable_def qa_readable_def rejecting_state_def)
  show ?thesis
    using missing_feedback_defaults_to_fix [of initial_state "[]" "[]"]
      missing_feedback_defaults_to_fix [of "[(''qa_results'', PDict [])]"]
      missing_feedback_defaults_to_fix [of "[(''feedback'', PDict []), (''qa_results'', PNone)]"]
      missing_feedback_defaults_to_fix [of rejecting_state]
      fb qa none a b c
    by simp
qed

text \<open>
  C2: each of the six steps with a conditional edge goes to its forward target when the
  flag its decision function reads is true and to its paired fix/revise step when the
  flag is false, and the two targets differ. The flag is \<^verbatim>\<open>approved\<close> of the review
  record (kept under \<^verbatim>\<open>product_owner\<close> for \<^verbatim>\<open>product_owner_review\<close>, under the step's name
  for the others) and \<^verbatim>\<open>passed\<close> of \<^verbatim>\<open>qa_results\<close> for \<^verbatim>\<open>qa_testing\<close>.
\<close>

theorem gates_route_by_flag:
  "map fst (branches create_development_workflow)
     = [''product_owner_review'', ''design_review'', ''code_review'', ''security_review'',
        ''test_cases_review'', ''qa_testing'']
   \<and> (approved_flag s ''product_owner'' = Some (PBool b1) \<longrightarrow>
        resolve_next create_development_workflow ''product_owner_review'' s
          = Inr (if b1 then ''create_design_documents'' else ''revise_user_stories''))
   \<and> ''create_design_documents'' \<noteq> ''revise_user_stories''
   \<and> (approved_flag s ''design_review'' = Some (PBool b2) \<longrightarrow>
        resolve_next create_development_workflow ''design_review'' s
          = Inr (if b2 then ''generate_code'' else ''revise_design_documents''))
   \<and> ''generate_code'' \<noteq> ''revise_design_documents''
   \<and> (approved_flag s ''code_review'' = Some (PBool b3) \<longrightarrow>
        resolve_next create_development_workflow ''code_review'' s
          = Inr (if b3 then ''security_review'' else ''fix_code_after_review''))
   \<and> ''security_review'' \<noteq> ''fix_code_after_review''
   \<and> (approved_flag s ''security_review'' = Some (PBool b4) \<longrightarrow>
        resolve_next create_development_workflow ''security_review'' s
          = Inr (if b4 then ''write_test_cases'' else ''fix_code_after_security''))
   \<and> ''write_test_cases'' \<noteq> ''fix_code_after_security''
   \<and> (approved_flag s ''test_cases_review'' = Some (PBool b5) \<longrightarrow>
        resolve_next create_development_workflow ''test_cases_review'' s
          = Inr (if b5 then ''qa_testing'' else ''fix_test_cases''))
   \<and> ''qa_testing'' \<noteq> ''fix_test_cases''
   \<and> (passed_flag s = Some (PBool b6) \<longrightarrow>
        resolve_next create_development_workflow ''qa_testing'' s
          = Inr (if b6 then ''deployment'' else ''fix_code_after_qa''))
   \<and> ''deployment'' \<noteq> ''fix_code_after_qa''"
  by (simp add: workflow_branches resolve_gates decision_defs approval_route_flag
        qa_testing_decision_flag)

theorem gates_route_by_flag_witness:
  "resolve_next create_development_workflow ''product_owner_review'' rejecting_state
     = Inr ''create_design_documents''
   \<and> resolve_next create_development_workflow ''design_review'' rejecting_state
     = Inr ''revise_design_documents''
   \<and> resolve_next create_development_workflow ''code_review'' rejecting_state
     = Inr ''security_review''
   \<and> resolve_next create_development_workflow ''security_review'' rejecting_state
     = Inr ''fix_code_after_security''
   \<and> resolve_next create_development_workflow ''test_cases_review'' rejecting_state
     = Inr ''qa_testing''
   \<and> resolve_next create_development_workflow ''qa_testing'' rejecting_state
     = Inr ''fix_code_after_qa''"
proof -
  have flags:
    "approved_flag rejecting_state ''product_owner'' = Some (PBool True)"
    "approved_flag rejecting_state ''design_review'' = Some (PBool False)"
    "approved_flag rejecting_state ''code_review'' = Some (PBool True)"
    "approved_flag rejecting_state ''security_review'' = Some (PBool False)"
    "approved_flag rejecting_state ''test_cases_review'' = Some (PBool True)"
    "passed_flag rejecting_state = Some (PBool False)"
    by (simp_all add: rejecting_state_def approved_flag_def feedback_of_def passed_flag_def)
  show ?thesis
    using gates_route_by_flag [of rejecting_state True False True False True False] flags
    by simp
qed

text \<open>
  C3: after each of the six fix/revise steps the next step is the gate it came from,
  whatever the state; none of them has a conditional edge.
\<close>

theorem fix_steps_return_to_gate:
  "resolve_next create_development_workflow ''revise_user_stories'' s = Inr ''product_owner_review''
   \<and> resolve_next create_development_workflow ''revise_design_documents'' s = Inr ''design_review''
   \<and> resolve_next create_development_workflow ''fix_code_after_review'' s = Inr ''code_review''
   \<and> resolve_next create_development_workflow ''fix_code_after_security'' s = Inr ''security_review''
   \<and> resolve_next create_development_workflow ''fix_test_cases'' s = Inr ''test_cases_review''
   \<and> resolve_next create_development_workflow ''fix_code_after_qa'' s = Inr ''qa_testing''
   \<and> set [''revise_user_stories'', ''revise_design_documents'', ''fix_code_after_review'',
            ''fix_code_after_security'', ''fix_test_cases'', ''fix_code_after_qa'']
        \<inter> set (map fst (branches create_development_workflow)) = {}"
  by (simp add: resolve_edges workflow_branches)

section \<open>When a statement succeeds\<close>

lemma getitem_Inr: "getitem v k = Inr x \<longleftrightarrow> (\<exists>d. v = PDict d \<and> map_of d k = Some x)"
  by (cases v) (auto split: option.splits)

lemma setitem_Inr:
  "setitem v k x = Inr y \<longleftrightarrow> (\<exists>d. v = PDict d \<and> y = PDict (AList.update k x d))"
  by (cases v) auto

lemma py_append_Inr: "py_append v x = Inr y \<longleftrightarrow> (\<exists>xs. v = PList xs \<and> y = PList (xs @ [x]))"
  by (cases v) auto

lemma dict_get_Inr:
  "dict_get v k d = Inr x \<longleftrightarrow>
     (\<exists>m. v = PDict m \<and> x = (case map_of m k of Some y \<Rightarrow> y | None \<Rightarrow> d))"
  by (cases v) auto

lemma bnd_Inr: "bnd m f s = (Inr y, t) \<longleftrightarrow> (\<exists>x u. m s = (Inr x, u) \<and> f x u = (Inr y, t))"
  by (auto simp: bnd_def split: prod.splits sum.splits)

lemma seq_Inr: "seq m n s = (Inr y, t) \<longleftrightarrow> (\<exists>u. m s = (Inr (), u) \<and> n u = (Inr y, t))"
  by (simp add: seq_def bnd_Inr)

lemma ret_Inr: "ret x s = (Inr y, t) \<longleftrightarrow> y = x \<and> t = s"
  by (auto simp: ret_def)

lemma lift_Inr: "lift r s = (Inr y, t) \<longleftrightarrow> r = Inr y \<and> t = s"
  by (auto simp: lift_def)

lemma state_getitem_Inr: "state_getitem k s = (Inr y, t) \<longleftrightarrow> map_of s k = Some y \<and> t = s"
  by (auto simp: state_getitem_def split: option.splits)

lemma state_get_Inr:
  "state_get k d s = (Inr y, t) \<longleftrightarrow> y = (case map_of s k of Some v \<Rightarrow> v | None \<Rightarrow> d) \<and> t = s"
  by (auto simp: state_get_def)

lemma state_setitem_Inr: "state_setitem k v s = (Inr y, t) \<longleftrightarrow> t = AList.update k v s"
  by (auto simp: state_setitem_def)

lemma state_setitem2_Inr:
  "state_setitem2 k1 k2 v s = (Inr y, t) \<longleftrightarrow>
     (\<exists>d. map_of s k1 = Some (PDict d) \<and> t = AList.update k1 (PDict (AList.update k2 v d)) s)"
  by (auto simp: state_setitem2_def bnd_Inr state_getitem_Inr lift_Inr setitem_Inr
        state_setitem_Inr)

lemma prompt_Inr: "prompt pasted s = (Inr y, t) \<longleftrightarrow> list_all template_safe pasted \<and> t = s"
  by (auto simp: prompt_def lift_def)

lemma placeholder_Inr: "placeholder h s = (Inr y, t) \<longleftrightarrow> chat_history h \<and> t = s"
  by (auto simp: placeholder_def lift_def)

lemma pipe_Inr: "pipe llm s = (Inr y, t) \<longleftrightarrow> False"
  by (simp add: pipe_def lift_def)

lemma invoke_Inr: "invoke w s = (Inr y, t) \<longleftrightarrow> model_reply w = Inr y \<and> t = s"
  by (auto simp: invoke_def lift_def split: sum.splits)

lemma add_to_history_Inr:
  "add_to_history w a m s = (Inr y, t) \<longleftrightarrow>
     (\<exists>hs. map_of s ''history'' = Some (PList hs)
        \<and> t = AList.update ''history'' (PList (hs @ [history_entry w a m])) s)"
  by (auto simp: add_to_history_def bnd_Inr state_getitem_Inr lift_Inr py_append_Inr
        state_setitem_Inr)

lemma if_exec_Inr:
  "(if c then m else n) s = (Inr y, t) \<longleftrightarrow> (c \<and> m s = (Inr y, t)) \<or> (\<not> c \<and> n s = (Inr y, t))"
  by simp

lemmas ok_simps = bnd_Inr seq_Inr ret_Inr lift_Inr state_getitem_Inr state_get_Inr
  state_setitem_Inr state_setitem2_Inr prompt_Inr placeholder_Inr pipe_Inr invoke_Inr
  add_to_history_Inr if_exec_Inr getitem_Inr dict_get_Inr update_conv'

lemmas exec_defs = bnd_def seq_def lift_def ret_def state_getitem_def state_get_def
  state_setitem_def state_setitem2_def prompt_def placeholder_def pipe_def invoke_def
  add_to_history_def

lemma history_record_entry: "history_record (history_entry w a m)"
  by (simp add: history_record_def history_entry_def)

lemma list_all_update: "list_all P d \<Longrightarrow> P (k, v) \<Longrightarrow> list_all P (AList.update k v d)"
  by (induction d) auto

lemma outcome: "fst p = Inr () \<Longrightarrow> p = (Inr (), snd p)"
  by (cases p) simp

section \<open>The node functions of \<^verbatim>\<open>user-stories-module.py\<close> and \<^verbatim>\<open>maintenance\<close> always raise\<close>

lemma user_stories_generate_user_stories_raises:
  "isl (fst (user_stories_generate_user_stories w s)) \<and> snd (user_stories_generate_user_stories w s) = s"
  unfolding user_stories_generate_user_stories_def exec_defs
  by (auto split: sum.splits)

lemma user_stories_product_owner_review_raises:
  "isl (fst (user_stories_product_owner_review w s)) \<and> snd (user_stories_product_owner_review w s) = s"
  unfolding user_stories_product_owner_review_def exec_defs
  by (auto split: sum.splits)

lemma user_stories_revise_user_stories_raises:
  "isl (fst (user_stories_revise_user_stories w s)) \<and> snd (user_stories_revise_user_stories w s) = s"
  unfolding user_stories_revise_user_stories_def exec_defs
  by (auto split: sum.splits)

lemma maintenance_raises: "isl (fst (maintenance w s))"
proof (cases "maintenance w s")
  case (Pair r t)
  have "r \<noteq> Inr ()"
  proof
    assume "r = Inr ()"
    with Pair have "maintenance w s = (Inr (), t)" by simp
    then show False
      unfolding maintenance_def maintenance_reads_def by (auto simp: ok_simps)
  qed
  with Pair show ?thesis by (cases r) simp_all
qed

section \<open>Every node function appends one history record\<close>

lemma requirements_collect_requirements_history:
  "requirements_collect_requirements w s = (Inr (), s') \<Longrightarrow>
   \<exists>hs e. map_of s ''history'' = Some (PList hs)
     \<and> map_of s' ''history'' = Some (PList (hs @ [e])) \<and> history_record e"
  unfolding requirements_collect_requirements_def
  by (auto simp: ok_simps history_record_entry)

lemma collect_requirements_history:
  "collect_requirements w s = (Inr (), s') \<Longrightarrow>
   \<exists>hs e. map_of s ''history'' = Some (PList hs)
     \<and> map_of s' ''history'' = Some (PList (hs @ [e])) \<and> history_record e"
  unfolding collect_requirements_def
  by (auto simp: ok_simps history_record_entry)

lemma generate_user_stories_history:
  "generate_user_stories w s = (Inr (), s') \<Longrightarrow>
   \<exists>hs e. map_of s ''history'' = Some (PList hs)
     \<and> map_of s' ''history'' = Some (PList (hs @ [e])) \<and> history_record e"
  unfolding generate_user_stories_def
  by (auto simp: ok_simps history_record_entry)

lemma product_owner_review_history:
  "product_owner_review w s = (Inr (), s') \<Longrightarrow>
   \<exists>hs e. map_of s ''history'' = Some (PList hs)
     \<and> map_of s' ''history'' = Some (PList (hs @ [e])) \<and> history_record e"
  unfolding product_owner_review_def
  by (auto simp: ok_simps history_record_entry)

lemma revise_user_stories_history:
  "revise_user_stories w s = (Inr (), s') \<Longrightarrow>
   \<exists>hs e. map_of s ''history'' = Some (PList hs)
     \<and> map_of s' ''history'' = Some (PList (hs @ [e])) \<and> history_record e"
  unfolding revise_user_stories_def
  by (auto simp: ok_simps history_record_entry)

lemma create_design_documents_history:
  "create_design_documents w s = (Inr (), s') \<Longrightarrow>
   \<exists>hs e. map_of s ''history'' = Some (PList hs)
     \<and> map_of s' ''history'' = Some (PList (hs @ [e])) \<and> history_record e"
  unfolding create_design_documents_def
  by (auto simp: ok_simps history_record_entry)

lemma design_review_history:
  "design_review w s = (Inr (), s') \<Longrightarrow>
   \<exists>hs e. map_of s ''history'' = Some (PList hs)
     \<and> map_of s' ''history'' = Some (PList (hs @ [e])) \<and> history_record e"
  unfolding design_review_def
  by (auto simp: ok_simps history_record_entry)

lemma revise_design_documents_history:
  "revise_design_documents w s = (Inr (), s') \<Longrightarrow>
   \<exists>hs e. map_of s ''history'' = Some (PList hs)
     \<and> map_of s' ''history'' = Some (PList (hs @ [e])) \<and> history_record e"
  unfolding revise_design_documents_def
  by (auto simp: ok_simps history_record_entry)

lemma generate_code_history:
  "generate_code w s = (Inr (), s') \<Longrightarrow>
   \<exists>hs e. map_of s ''history'' = Some (PList hs)
     \<and> map_of s' ''history'' = Some (PList (hs @ [e])) \<and> history_record e"
  unfolding generate_code_def
  by (auto simp: ok_simps history_record_entry)

lemma code_review_history:
  "code_review w s = (Inr (), s') \<Longrightarrow>
   \<exists>hs e. map_of s ''history'' = Some (PList hs)
     \<and> map_of s' ''history'' = Some (PList (hs @ [e])) \<and> history_record e"
  unfolding code_review_def
  by (auto simp: ok_simps history_record_entry)

lemma fix_code_after_review_history:
  "fix_code_after_review w s = (Inr (), s') \<Longrightarrow>
   \<exists>hs e. map_of s ''history'' = Some (PList hs)
     \<and> map_of s' ''history'' = Some (PList (hs @ [e])) \<and> history_record e"
  unfolding fix_code_after_review_def
  by (auto simp: ok_simps history_record_entry)

lemma security_review_history:
  "security_review w s = (Inr (), s') \<Longrightarrow>
   \<exists>hs e. map_of s ''history'' = Some (PList hs)
     \<and> map_of s' ''history'' = Some (PList (hs @ [e])) \<and> history_record e"
  unfolding security_review_def
  by (auto simp: ok_simps history_record_entry)

lemma fix_code_after_security_history:
  "fix_code_after_security w s = (Inr (), s') \<Longrightarrow>
   \<exists>hs e. map_of s ''history'' = Some (PList hs)
     \<and> map_of s' ''history'' = Some (PList (hs @ [e])) \<and> history_record e"
  unfolding fix_code_after_security_def
  by (auto simp: ok_simps history_record_entry)

lemma write_test_cases_history:
  "write_test_cases w s = (Inr (), s') \<Longrightarrow>
   \<exists>hs e. map_of s ''history'' = Some (PList hs)
     \<and> map_of s' ''history'' = Some (PList (hs @ [e])) \<and> history_record e"
  unfolding write_test_cases_def
  by (auto simp: ok_simps history_record_entry)

lemma test_cases_review_history:
  "test_cases_review w s = (Inr (), s') \<Longrightarrow>
   \<exists>hs e. map_of s ''history'' = Some (PList hs)
     \<and> map_of s' ''history'' = Some (PList (hs @ [e])) \<and> history_record e"
  unfolding test_cases_review_def
  by (auto simp: ok_simps history_record_entry)

lemma fix_test_cases_history:
  "fix_test_cases w s = (Inr (), s') \<Longrightarrow>
   \<exists>hs e. map_of s ''history'' = Some (PList hs)
     \<and> map_of s' ''history'' = Some (PList (hs @ [e])) \<and> history_record e"
  unfolding fix_test_cases_def
  by (auto simp: ok_simps history_record_entry)

lemma qa_testing_history:
  "qa_testing w s = (Inr (), s') \<Longrightarrow>
   \<exists>hs e. map_of s ''history'' = Some (PList hs)
     \<and> map_of s' ''history'' = Some (PList (hs @ [e])) \<and> history_record e"
  unfolding qa_testing_def
  by (auto simp: ok_simps history_record_entry)

lemma fix_code_after_qa_history:
  "fix_code_after_qa w s = (Inr (), s') \<Longrightarrow>
   \<exists>hs e. map_of s ''history'' = Some (PList hs)
     \<and> map_of s' ''history'' = Some (PList (hs @ [e])) \<and> history_record e"
  unfolding fix_code_after_qa_def
  by (auto simp: ok_simps history_record_entry)

lemma deployment_history:
  "deployment w s = (Inr (), s') \<Longrightarrow>
   \<exists>hs e. map_of s ''history'' = Some (PList hs)
     \<and> map_of s' ''history'' = Some (PList (hs @ [e])) \<and> history_record e"
  unfolding deployment_def
  by (auto simp: ok_simps history_record_entry)

lemma monitoring_history:
  "monitoring w s = (Inr (), s') \<Longrightarrow>
   \<exists>hs e. map_of s ''history'' = Some (PList hs)
     \<and> map_of s' ''history'' = Some (PList (hs @ [e])) \<and> history_record e"
  unfolding monitoring_def
  by (auto simp: ok_simps history_record_entry)

lemma maintenance_history:
  "maintenance w s = (Inr (), s') \<Longrightarrow>
   \<exists>hs e. map_of s ''history'' = Some (PList hs)
     \<and> map_of s' ''history'' = Some (PList (hs @ [e])) \<and> history_record e"
  unfolding maintenance_def maintenance_reads_def
  by (auto simp: ok_simps history_record_entry)

lemma user_stories_generate_user_stories_history:
  "user_stories_generate_user_stories w s = (Inr (), s') \<Longrightarrow>
   \<exists>hs e. map_of s ''history'' = Some (PList hs)
     \<and> map_of s' ''history'' = Some (PList (hs @ [e])) \<and> history_record e"
  unfolding user_stories_generate_user_stories_def
  by (auto simp: ok_simps history_record_entry)

lemma user_stories_product_owner_review_history:
  "user_stories_product_owner_review w s = (Inr (), s') \<Longrightarrow>
   \<exists>hs e. map_of s ''history'' = Some (PList hs)
     \<and> map_of s' ''history'' = Some (PList (hs @ [e])) \<and> history_record e"
  unfolding user_stories_product_owner_review_def
  by (auto simp: ok_simps history_record_entry)

lemma user_stories_revise_user_stories_history:
  "user_stories_revise_user_stories w s = (Inr (), s') \<Longrightarrow>
   \<exists>hs e. map_of s ''history'' = Some (PList hs)
     \<and> map_of s' ''history'' = Some (PList (hs @ [e])) \<and> history_record e"
  unfolding user_stories_revise_user_stories_def
  by (auto simp: ok_simps history_record_entry)

section \<open>Every registered node function keeps the state routable\<close>

lemma requirements_collect_requirements_routable:
  "routable s \<Longrightarrow> requirements_collect_requirements w s = (Inr (), s') \<Longrightarrow> routable s'"
  unfolding requirements_collect_requirements_def routable_def
  by (auto simp: ok_simps list_all_update split: option.splits pyval.splits)

lemma user_stories_generate_user_stories_routable:
  "routable s \<Longrightarrow> user_stories_generate_user_stories w s = (Inr (), s') \<Longrightarrow> routable s'"
  unfolding user_stories_generate_user_stories_def routable_def
  by (auto simp: ok_simps list_all_update split: option.splits pyval.splits)

lemma user_stories_product_owner_review_routable:
  "routable s \<Longrightarrow> user_stories_product_owner_review w s = (Inr (), s') \<Longrightarrow> routable s'"
  unfolding user_stories_product_owner_review_def routable_def
  by (auto simp: ok_simps list_all_update split: option.splits pyval.splits)

lemma user_stories_revise_user_stories_routable:
  "routable s \<Longrightarrow> user_stories_revise_user_stories w s = (Inr (), s') \<Longrightarrow> routable s'"
  unfolding user_stories_revise_user_stories_def routable_def
  by (auto simp: ok_simps list_all_update split: option.splits pyval.splits)

lemma create_design_documents_routable:
  "routable s \<Longrightarrow> create_design_documents w s = (Inr (), s') \<Longrightarrow> routable s'"
  unfolding create_design_documents_def routable_def
  by (auto simp: ok_simps list_all_update split: option.splits pyval.splits)

lemma design_review_routable:
  "routable s \<Longrightarrow> design_review w s = (Inr (), s') \<Longrightarrow> routable s'"
  unfolding design_review_def routable_def
  by (auto simp: ok_simps list_all_update split: option.splits pyval.splits)

lemma revise_design_documents_routable:
  "routable s \<Longrightarrow> revise_design_documents w s = (Inr (), s') \<Longrightarrow> routable s'"
  unfolding revise_design_documents_def routable_def
  by (auto simp: ok_simps list_all_update split: option.splits pyval.splits)

lemma generate_code_routable:
  "routable s \<Longrightarrow> generate_code w s = (Inr (), s') \<Longrightarrow> routable s'"
  unfolding generate_code_def routable_def
  by (auto simp: ok_simps list_all_update split: option.splits pyval.splits)

lemma code_review_routable:
  "routable s \<Longrightarrow> code_review w s = (Inr (), s') \<Longrightarrow> routable s'"
  unfolding code_review_def routable_def
  by (auto simp: ok_simps list_all_update split: option.splits pyval.splits)

lemma fix_code_after_review_routable:
  "routable s \<Longrightarrow> fix_code_after_review w s = (Inr (), s') \<Longrightarrow> routable s'"
  unfolding fix_code_after_review_def routable_def
  by (auto simp: ok_simps list_all_update split: option.splits pyval.splits)

lemma security_review_routable:
  "routable s \<Longrightarrow> security_review w s = (Inr (), s') \<Longrightarrow> routable s'"
  unfolding security_review_def routable_def
  by (auto simp: ok_simps list_all_update split: option.splits pyval.splits)

lemma fix_code_after_security_routable:
  "routable s \<Longrightarrow> fix_code_after_security w s = (Inr (), s') \<Longrightarrow> routable s'"
  unfolding fix_code_after_security_def routable_def
  by (auto simp: ok_simps list_all_update split: option.splits pyval.splits)

lemma write_test_cases_routable:
  "routable s \<Longrightarrow> write_test_cases w s = (Inr (), s') \<Longrightarrow> routable s'"
  unfolding write_test_cases_def routable_def
  by (auto simp: ok_simps list_all_update split: option.splits pyval.splits)

lemma test_cases_review_routable:
  "routable s \<Longrightarrow> test_cases_review w s = (Inr (), s') \<Longrightarrow> routable s'"
  unfolding test_cases_review_def routable_def
  by (auto simp: ok_simps list_all_update split: option.splits pyval.splits)

lemma fix_test_cases_routable:
  "routable s \<Longrightarrow> fix_test_cases w s = (Inr (), s') \<Longrightarrow> routable s'"
  unfolding fix_test_cases_def routable_def
  by (auto simp: ok_simps list_all_update split: option.splits pyval.splits)

lemma qa_testing_routable:
  "routable s \<Longrightarrow> qa_testing w s = (Inr (), s') \<Longrightarrow> routable s'"
  unfolding qa_testing_def routable_def
  by (auto simp: ok_simps list_all_update split: option.splits pyval.splits)

lemma fix_code_after_qa_routable:
  "routable s \<Longrightarrow> fix_code_after_qa w s = (Inr (), s') \<Longrightarrow> routable s'"
  unfolding fix_code_after_qa_def routable_def
  by (auto simp: ok_simps list_all_update split: option.splits pyval.splits)

lemma deployment_routable:
  "routable s \<Longrightarrow> deployment w s = (Inr (), s') \<Longrightarrow> routable s'"
  unfolding deployment_def routable_def
  by (auto simp: ok_simps list_all_update split: option.splits pyval.splits)

lemma monitoring_routable:
  "routable s \<Longrightarrow> monitoring w s = (Inr (), s') \<Longrightarrow> routable s'"
  unfolding monitoring_def routable_def
  by (auto simp: ok_simps list_all_update split: option.splits pyval.splits)

lemma maintenance_routable:
  "routable s \<Longrightarrow> maintenance w s = (Inr (), s') \<Longrightarrow> routable s'"
  unfolding maintenance_def maintenance_reads_def routable_def
  by (auto simp: ok_simps list_all_update split: option.splits pyval.splits)

section \<open>Every registered node function sets a registered step\<close>

lemma requirements_collect_requirements_current_step:
  "requirements_collect_requirements w s = (Inr (), s') \<Longrightarrow>
   \<exists>n. map_of s' ''current_step'' = Some (PStr n) \<and> n \<in> set step_names"
  unfolding requirements_collect_requirements_def
  by (auto simp: ok_simps step_names_eq)

lemma user_stories_generate_user_stories_current_step:
  "user_stories_generate_user_stories w s = (Inr (), s') \<Longrightarrow>
   \<exists>n. map_of s' ''current_step'' = Some (PStr n) \<and> n \<in> set step_names"
  unfolding user_stories_generate_user_stories_def
  by (auto simp: ok_simps step_names_eq)

lemma user_stories_product_owner_review_current_step:
  "user_stories_product_owner_review w s = (Inr (), s') \<Longrightarrow>
   \<exists>n. map_of s' ''current_step'' = Some (PStr n) \<and> n \<in> set step_names"
  unfolding user_stories_product_owner_review_def
  by (auto simp: ok_simps step_names_eq)

lemma user_stories_revise_user_stories_current_step:
  "user_stories_revise_user_stories w s = (Inr (), s') \<Longrightarrow>
   \<exists>n. map_of s' ''current_step'' = Some (PStr n) \<and> n \<in> set step_names"
  unfolding user_stories_revise_user_stories_def
  by (auto simp: ok_simps step_names_eq)

lemma create_design_documents_current_step:
  "create_design_documents w s = (Inr (), s') \<Longrightarrow>
   \<exists>n. map_of s' ''current_step'' = Some (PStr n) \<and> n \<in> set step_names"
  unfolding create_design_documents_def
  by (auto simp: ok_simps step_names_eq)

lemma design_review_current_step:
  "design_review w s = (Inr (), s') \<Longrightarrow>
   \<exists>n. map_of s' ''current_step'' = Some (PStr n) \<and> n \<in> set step_names"
  unfolding design_review_def
  by (auto simp: ok_simps step_names_eq)

lemma revise_design_documents_current_step:
  "revise_design_documents w s = (Inr (), s') \<Longrightarrow>
   \<exists>n. map_of s' ''current_step'' = Some (PStr n) \<and> n \<in> set step_names"
  unfolding revise_design_documents_def
  by (auto simp: ok_simps step_names_eq)

lemma generate_code_current_step:
  "generate_code w s = (Inr (), s') \<Longrightarrow>
   \<exists>n. map_of s' ''current_step'' = Some (PStr n) \<and> n \<in> set step_names"
  unfolding generate_code_def
  by (auto simp: ok_simps step_names_eq)

lemma code_review_current_step:
  "code_review w s = (Inr (), s') \<Longrightarrow>
   \<exists>n. map_of s' ''current_step'' = Some (PStr n) \<and> n \<in> set step_names"
  unfolding code_review_def
  by (auto simp: ok_simps step_names_eq)

lemma fix_code_after_review_current_step:
  "fix_code_after_review w s = (Inr (), s') \<Longrightarrow>
   \<exists>n. map_of s' ''current_step'' = Some (PStr n) \<and> n \<in> set step_names"
  unfolding fix_code_after_review_def
  by (auto simp: ok_simps step_names_eq)

lemma security_review_current_step:
  "security_review w s = (Inr (), s') \<Longrightarrow>
   \<exists>n. map_of s' ''current_step'' = Some (PStr n) \<and> n \<in> set step_names"
  unfolding security_review_def
  by (auto simp: ok_simps step_names_eq)

lemma fix_code_after_security_current_step:
  "fix_code_after_security w s = (Inr (), s') \<Longrightarrow>
   \<exists>n. map_of s' ''current_step'' = Some (PStr n) \<and> n \<in> set step_names"
  unfolding fix_code_after_security_def
  by (auto simp: ok_simps step_names_eq)

lemma write_test_cases_current_step:
  "write_test_cases w s = (Inr (), s') \<Longrightarrow>
   \<exists>n. map_of s' ''current_step'' = Some (PStr n) \<and> n \<in> set step_names"
  unfolding write_test_cases_def
  by (auto simp: ok_simps step_names_eq)

lemma test_cases_review_current_step:
  "test_cases_review w s = (Inr (), s') \<Longrightarrow>
   \<exists>n. map_of s' ''current_step'' = Some (PStr n) \<and> n \<in> set step_names"
  unfolding test_cases_review_def
  by (auto simp: ok_simps step_names_eq)

lemma fix_test_cases_current_step:
  "fix_test_cases w s = (Inr (), s') \<Longrightarrow>
   \<exists>n. map_of s' ''current_step'' = Some (PStr n) \<and> n \<in> set step_names"
  unfolding fix_test_cases_def
  by (auto simp: ok_simps step_names_eq)

lemma qa_testing_current_step:
  "qa_testing w s = (Inr (), s') \<Longrightarrow>
   \<exists>n. map_of s' ''current_step'' = Some (PStr n) \<and> n \<in> set step_names"
  unfolding qa_testing_def
  by (auto simp: ok_simps step_names_eq)

lemma fix_code_after_qa_current_step:
  "fix_code_after_qa w s = (Inr (), s') \<Longrightarrow>
   \<exists>n. map_of s' ''current_step'' = Some (PStr n) \<and> n \<in> set step_names"
  unfolding fix_code_after_qa_def
  by (auto simp: ok_simps step_names_eq)

lemma deployment_current_step:
  "deployment w s = (Inr (), s') \<Longrightarrow>
   \<exists>n. map_of s' ''current_step'' = Some (PStr n) \<and> n \<in> set step_names"
  unfolding deployment_def
  by (auto simp: ok_simps step_names_eq)

lemma monitoring_current_step:
  "monitoring w s = (Inr (), s') \<Longrightarrow>
   \<exists>n. map_of s' ''current_step'' = Some (PStr n) \<and> n \<in> set step_names"
  unfolding monitoring_def
  by (auto simp: ok_simps step_names_eq)

lemma maintenance_current_step:
  "maintenance w s = (Inr (), s') \<Longrightarrow>
   \<exists>n. map_of s' ''current_step'' = Some (PStr n) \<and> n \<in> set step_names"
  unfolding maintenance_def maintenance_reads_def
  by (auto simp: ok_simps step_names_eq)

section \<open>A failing model call leaves the state as it was\<close>

lemma collect_requirements_model_failure:
  "model_reply w = Inl r \<Longrightarrow>
   snd (collect_requirements w s) = s \<and> isl (fst (collect_requirements w s))
   \<and> (fst (collect_requirements w s) \<noteq> Inl (ModelCallError r) \<longrightarrow>
        collect_requirements (w\<lparr>model_reply := Inr v\<rparr>) s = collect_requirements w s)"
  unfolding collect_requirements_def exec_defs
  by (auto split: sum.splits)

lemma generate_user_stories_model_failure:
  "model_reply w = Inl r \<Longrightarrow>
   snd (generate_user_stories w s) = s \<and> isl (fst (generate_user_stories w s))
   \<and> (fst (generate_user_stories w s) \<noteq> Inl (ModelCallError r) \<longrightarrow>
        generate_user_stories (w\<lparr>model_reply := Inr v\<rparr>) s = generate_user_stories w s)"
  unfolding generate_user_stories_def exec_defs
  by (auto split: sum.splits)

lemma product_owner_review_model_failure:
  "model_reply w = Inl r \<Longrightarrow>
   snd (product_owner_review w s) = s \<and> isl (fst (product_owner_review w s))
   \<and> (fst (product_owner_review w s) \<noteq> Inl (ModelCallError r) \<longrightarrow>
        product_owner_review (w\<lparr>model_reply := Inr v\<rparr>) s = product_owner_review w s)"
  unfolding product_owner_review_def exec_defs
  by (auto split: sum.splits)

lemma revise_user_stories_model_failure:
  "model_reply w = Inl r \<Longrightarrow>
   snd (revise_user_stories w s) = s \<and> isl (fst (revise_user_stories w s))
   \<and> (fst (revise_user_stories w s) \<noteq> Inl (ModelCallError r) \<longrightarrow>
        revise_user_stories (w\<lparr>model_reply := Inr v\<rparr>) s = revise_user_stories w s)"
  unfolding revise_user_stories_def exec_defs
  by (auto split: sum.splits)

lemma create_design_documents_model_failure:
  "model_reply w = Inl r \<Longrightarrow>
   snd (create_design_documents w s) = s \<and> isl (fst (create_design_documents w s))
   \<and> (fst (create_design_documents w s) \<noteq> Inl (ModelCallError r) \<longrightarrow>
        create_design_documents (w\<lparr>model_reply := Inr v\<rparr>) s = create_design_documents w s)"
  unfolding create_design_documents_def exec_defs
  by (auto split: sum.splits)

lemma design_review_model_failure:
  "model_reply w = Inl r \<Longrightarrow>
   snd (design_review w s) = s \<and> isl (fst (design_review w s))
   \<and> (fst (design_review w s) \<noteq> Inl (ModelCallError r) \<longrightarrow>
        design_review (w\<lparr>model_reply := Inr v\<rparr>) s = design_review w s)"
  unfolding design_review_def exec_defs
  by (auto split: sum.splits)

lemma revise_design_documents_model_failure:
  "model_reply w = Inl r \<Longrightarrow>
   snd (revise_design_documents w s) = s \<and> isl (fst (revise_design_documents w s))
   \<and> (fst (revise_design_documents w s) \<noteq> Inl (ModelCallError r) \<longrightarrow>
        revise_design_documents (w\<lparr>model_reply := Inr v\<rparr>) s = revise_design_documents w s)"
  unfolding revise_design_documents_def exec_defs
  by (auto split: sum.splits)

lemma generate_code_model_failure:
  "model_reply w = Inl r \<Longrightarrow>
   snd (generate_code w s) = s \<and> isl (fst (generate_code w s))
   \<and> (fst (generate_code w s) \<noteq> Inl (ModelCallError r) \<longrightarrow>
        generate_code (w\<lparr>model_reply := Inr v\<rparr>) s = generate_code w s)"
  unfolding generate_code_def exec_defs
  by (auto split: sum.splits)

lemma code_review_model_failure:
  "model_reply w = Inl r \<Longrightarrow>
   snd (code_review w s) = s \<and> isl (fst (code_review w s))
   \<and> (fst (code_review w s) \<noteq> Inl (ModelCallError r) \<longrightarrow>
        code_review (w\<lparr>model_reply := Inr v\<rparr>) s = code_review w s)"
  unfolding code_review_def exec_defs
  by (auto split: sum.splits)

lemma fix_code_after_review_model_failure:
  "model_reply w = Inl r \<Longrightarrow>
   snd (fix_code_after_review w s) = s \<and> isl (fst (fix_code_after_review w s))
   \<and> (fst (fix_code_after_review w s) \<noteq> Inl (ModelCallError r) \<longrightarrow>
        fix_code_after_review (w\<lparr>model_reply := Inr v\<rparr>) s = fix_code_after_review w s)"
  unfolding fix_code_after_review_def exec_defs
  by (auto split: sum.splits)

lemma security_review_model_failure:
  "model_reply w = Inl r \<Longrightarrow>
   snd (security_review w s) = s \<and> isl (fst (security_review w s))
   \<and> (fst (security_review w s) \<noteq> Inl (ModelCallError r) \<longrightarrow>
        security_review (w\<lparr>model_reply := Inr v\<rparr>) s = security_review w s)"
  unfolding security_review_def exec_defs
  by (auto split: sum.splits)

lemma fix_code_after_security_model_failure:
  "model_reply w = Inl r \<Longrightarrow>
   snd (fix_code_after_security w s) = s \<and> isl (fst (fix_code_after_security w s))
   \<and> (fst (fix_code_after_security w s) \<noteq> Inl (ModelCallError r) \<longrightarrow>
        fix_code_after_security (w\<lparr>model_reply := Inr v\<rparr>) s = fix_code_after_security w s)"
  unfolding fix_code_after_security_def exec_defs
  by (auto split: sum.splits)

lemma write_test_cases_model_failure:
  "model_reply w = Inl r \<Longrightarrow>
   snd (write_test_cases w s) = s \<and> isl (fst (write_test_cases w s))
   \<and> (fst (write_test_cases w s) \<noteq> Inl (ModelCallError r) \<longrightarrow>
        write_test_cases (w\<lparr>model_reply := Inr v\<rparr>) s = write_test_cases w s)"
  unfolding write_test_cases_def exec_defs
  by (auto split: sum.splits)

lemma test_cases_review_model_failure:
  "model_reply w = Inl r \<Longrightarrow>
   snd (test_cases_review w s) = s \<and> isl (fst (test_cases_review w s))
   \<and> (fst (test_cases_review w s) \<noteq> Inl (ModelCallError r) \<longrightarrow>
        test_cases_review (w\<lparr>model_reply := Inr v\<rparr>) s = test_cases_review w s)"
  unfolding test_cases_review_def exec_defs
  by (auto split: sum.splits)

lemma fix_test_cases_model_failure:
  "model_reply w = Inl r \<Longrightarrow>
   snd (fix_test_cases w s) = s \<and> isl (fst (fix_test_cases w s))
   \<and> (fst (fix_test_cases w s) \<noteq> Inl (ModelCallError r) \<longrightarrow>
        fix_test_cases (w\<lparr>model_reply := Inr v\<rparr>) s = fix_test_cases w s)"
  unfolding fix_test_cases_def exec_defs
  by (auto split: sum.splits)

lemma qa_testing_model_failure:
  "model_reply w = Inl r \<Longrightarrow>
   snd (qa_testing w s) = s \<and> isl (fst (qa_testing w s))
   \<and> (fst (qa_testing w s) \<noteq> Inl (ModelCallError r) \<longrightarrow>
        qa_testing (w\<lparr>model_reply := Inr v\<rparr>) s = qa_testing w s)"
  unfolding qa_testing_def exec_defs
  by (auto split: sum.splits)

lemma fix_code_after_qa_model_failure:
  "model_reply w = Inl r \<Longrightarrow>
   snd (fix_code_after_qa w s) = s \<and> isl (fst (fix_code_after_qa w s))
   \<and> (fst (fix_code_after_qa w s) \<noteq> Inl (ModelCallError r) \<longrightarrow>
        fix_code_after_qa (w\<lparr>model_reply := Inr v\<rparr>) s = fix_code_after_qa w s)"
  unfolding fix_code_after_qa_def exec_defs
  by (auto split: sum.splits)

lemma deployment_model_failure:
  "model_reply w = Inl r \<Longrightarrow>
   snd (deployment w s) = s \<and> isl (fst (deployment w s))
   \<and> (fst (deployment w s) \<noteq> Inl (ModelCallError r) \<longrightarrow>
        deployment (w\<lparr>model_reply := Inr v\<rparr>) s = deployment w s)"
  unfolding deployment_def exec_defs
  by (auto split: sum.splits)

lemma monitoring_model_failure:
  "model_reply w = Inl r \<Longrightarrow>
   snd (monitoring w s) = s \<and> isl (fst (monitoring w s))
   \<and> (fst (monitoring w s) \<noteq> Inl (ModelCallError r) \<longrightarrow>
        monitoring (w\<lparr>model_reply := Inr v\<rparr>) s = monitoring w s)"
  unfolding monitoring_def exec_defs
  by (auto split: sum.splits)

lemma maintenance_model_failure:
  "model_reply w = Inl r \<Longrightarrow>
   snd (maintenance w s) = s \<and> isl (fst (maintenance w s))
   \<and> (fst (maintenance w s) \<noteq> Inl (ModelCallError r) \<longrightarrow>
        maintenance (w\<lparr>model_reply := Inr v\<rparr>) s = maintenance w s)"
  unfolding maintenance_def maintenance_reads_def exec_defs
  by (auto split: sum.splits)

lemma user_stories_generate_user_stories_model_failure:
  "model_reply w = Inl r \<Longrightarrow>
   snd (user_stories_generate_user_stories w s) = s \<and> isl (fst (user_stories_generate_user_stories w s))
   \<and> (fst (user_stories_generate_user_stories w s) \<noteq> Inl (ModelCallError r) \<longrightarrow>
        user_stories_generate_user_stories (w\<lparr>model_reply := Inr v\<rparr>) s = user_stories_generate_user_stories w s)"
  unfolding user_stories_generate_user_stories_def exec_defs
  by (auto split: sum.splits)

lemma user_stories_product_owner_review_model_failure:
  "model_reply w = Inl r \<Longrightarrow>
   snd (user_stories_product_owner_review w s) = s \<and> isl (fst (user_stories_product_owner_review w s))
   \<and> (fst (user_stories_product_owner_review w s) \<noteq> Inl (ModelCallError r) \<longrightarrow>
        user_stories_product_owner_review (w\<lparr>model_reply := Inr v\<rparr>) s = user_stories_product_owner_review w s)"
  unfolding user_stories_product_owner_review_def exec_defs
  by (auto split: sum.splits)

lemma user_stories_revise_user_stories_model_failure:
  "model_reply w = Inl r \<Longrightarrow>
   snd (user_stories_revise_user_stories w s) = s \<and> isl (fst (user_stories_revise_user_stories w s))
   \<and> (fst (user_stories_revise_user_stories w s) \<noteq> Inl (ModelCallError r) \<longrightarrow>
        user_stories_revise_user_stories (w\<lparr>model_reply := Inr v\<rparr>) s = user_stories_revise_user_stories w s)"
  unfolding user_stories_revise_user_stories_def exec_defs
  by (auto split: sum.splits)

lemmas handler_history =
  requirements_collect_requirements_history
  collect_requirements_history
  generate_user_stories_history
  product_owner_review_history
  revise_user_stories_history
  create_design_documents_history
  design_review_history
  revise_design_documents_history
  generate_code_history
  code_review_history
  fix_code_after_review_history
  security_review_history
  fix_code_after_security_history
  write_test_cases_history
  test_cases_review_history
  fix_test_cases_history
  qa_testing_history
  fix_code_after_qa_history
  deployment_history
  monitoring_history
  maintenance_history
  user_stories_generate_user_stories_history
  user_stories_product_owner_review_history
  user_stories_revise_user_stories_history

lemmas handler_routable =
  requirements_collect_requirements_routable
  user_stories_generate_user_stories_routable
  user_stories_product_owner_review_routable
  user_stories_revise_user_stories_routable
  create_design_documents_routable
  design_review_routable
  revise_design_documents_routable
  generate_code_routable
  code_review_routable
  fix_code_after_review_routable
  security_review_routable
  fix_code_after_security_routable
  write_test_cases_routable
  test_cases_review_routable
  fix_test_cases_routable
  qa_testing_routable
  fix_code_after_qa_routable
  deployment_routable
  monitoring_routable
  maintenance_routable

lemmas handler_current_step =
  requirements_collect_requirements_current_step
  user_stories_generate_user_stories_current_step
  user_stories_product_owner_review_current_step
  user_stories_revise_user_stories_current_step
  create_design_documents_current_step
  design_review_current_step
  revise_design_documents_current_step
  generate_code_current_step
  code_review_current_step
  fix_code_after_review_current_step
  security_review_current_step
  fix_code_after_security_current_step
  write_test_cases_current_step
  test_cases_review_current_step
  fix_test_cases_current_step
  qa_testing_current_step
  fix_code_after_qa_current_step
  deployment_current_step
  monitoring_current_step
  maintenance_current_step

lemmas handler_model_failure =
  collect_requirements_model_failure
  generate_user_stories_model_failure
  product_owner_review_model_failure
  revise_user_stories_model_failure
  create_design_documents_model_failure
  design_review_model_failure
  revise_design_documents_model_failure
  generate_code_model_failure
  code_review_model_failure
  fix_code_after_review_model_failure
  security_review_model_failure
  fix_code_after_security_model_failure
  write_test_cases_model_failure
  test_cases_review_model_failure
  fix_test_cases_model_failure
  qa_testing_model_failure
  fix_code_after_qa_model_failure
  deployment_model_failure
  monitoring_model_failure
  maintenance_model_failure
  user_stories_generate_user_stories_model_failure
  user_stories_product_owner_review_model_failure
  user_stories_revise_user_stories_model_failure

lemmas run_defs = exec_defs initial_state_def reply_def failure_def approval_def history_entry_def

section \<open>When a node function returns\<close>

lemma requirements_collect_requirements_returns:
  "map_of s ''user_inputs'' = Some (PDict inputs) \<Longrightarrow>
   map_of s ''history'' = Some (PList hs) \<Longrightarrow>
   fst (requirements_collect_requirements w s) = Inr ()"
  by (simp add: requirements_collect_requirements_def exec_defs update_conv')

lemma collect_requirements_returns:
  "map_of s ''history'' = Some (PList hs) \<Longrightarrow>
   list_all chat_message hs \<Longrightarrow>
   model_reply w' = Inr content \<Longrightarrow>
   slice100 content = Inr head \<Longrightarrow>
   map_of s ''user_inputs'' = Some (PDict inputs) \<Longrightarrow>
   fst (collect_requirements w' s) = Inr ()"
  by (simp add: collect_requirements_def exec_defs update_conv')

lemma generate_user_stories_returns:
  "map_of s ''user_inputs'' = Some (PDict inputs) \<Longrightarrow>
   template_safe (case map_of inputs ''requirements_document'' of Some x \<Rightarrow> x | None \<Rightarrow> PStr []) \<Longrightarrow>
   model_reply w = Inr result \<Longrightarrow>
   getitem result ''user_stories'' = Inr new \<Longrightarrow>
   py_len new = Inr n \<Longrightarrow>
   map_of s ''history'' = Some (PList hs) \<Longrightarrow>
   fst (generate_user_stories w s) = Inr ()"
  by (simp add: generate_user_stories_def exec_defs update_conv')

lemma product_owner_review_returns:
  "map_of s ''user_stories'' = Some stories \<Longrightarrow>
   template_safe stories \<Longrightarrow>
   model_reply w = Inr result \<Longrightarrow>
   map_of s ''feedback'' = Some (PDict fb) \<Longrightarrow>
   getitem result ''approved'' = Inr a \<Longrightarrow>
   map_of s ''history'' = Some (PList hs) \<Longrightarrow>
   fst (product_owner_review w s) = Inr ()"
  by (simp add: product_owner_review_def exec_defs update_conv')

lemma revise_user_stories_returns:
  "map_of s ''user_stories'' = Some stories \<Longrightarrow>
   template_safe stories \<Longrightarrow>
   map_of s ''feedback'' = Some (PDict fb) \<Longrightarrow>
   map_of fb ''product_owner'' = Some review \<Longrightarrow>
   template_safe review \<Longrightarrow>
   model_reply w = Inr result \<Longrightarrow>
   getitem result ''user_stories'' = Inr new \<Longrightarrow>
   map_of s ''history'' = Some (PList hs) \<Longrightarrow>
   fst (revise_user_stories w s) = Inr ()"
  by (simp add: revise_user_stories_def exec_defs update_conv')

lemma create_design_documents_returns:
  "map_of s ''user_stories'' = Some stories \<Longrightarrow>
   template_safe stories \<Longrightarrow>
   map_of s ''user_inputs'' = Some (PDict inputs) \<Longrightarrow>
   template_safe (case map_of inputs ''requirements_document'' of Some x \<Rightarrow> x | None \<Rightarrow> PStr []) \<Longrightarrow>
   model_reply w = Inr result \<Longrightarrow>
   map_of s ''history'' = Some (PList hs) \<Longrightarrow>
   fst (create_design_documents w s) = Inr ()"
  by (simp add: create_design_documents_def exec_defs update_conv')

lemma design_review_returns:
  "map_of s ''design_documents'' = Some design \<Longrightarrow>
   template_safe design \<Longrightarrow>
   model_reply w = Inr result \<Longrightarrow>
   map_of s ''feedback'' = Some (PDict fb) \<Longrightarrow>
   getitem result ''approved'' = Inr a \<Longrightarrow>
   map_of s ''history'' = Some (PList hs) \<Longrightarrow>
   fst (design_review w s) = Inr ()"
  by (simp add: design_review_def exec_defs update_conv')

lemma revise_design_documents_returns:
  "map_of s ''design_documents'' = Some design \<Longrightarrow>
   template_safe design \<Longrightarrow>
   map_of s ''feedback'' = Some (PDict fb) \<Longrightarrow>
   map_of fb ''design_review'' = Some review \<Longrightarrow>
   template_safe review \<Longrightarrow>
   model_reply w = Inr result \<Longrightarrow>
   map_of s ''history'' = Some (PList hs) \<Longrightarrow>
   fst (revise_design_documents w s) = Inr ()"
  by (simp add: revise_design_documents_def exec_defs update_conv')

lemma generate_code_returns:
  "map_of s ''design_documents'' = Some design \<Longrightarrow>
   template_safe design \<Longrightarrow>
   map_of s ''user_stories'' = Some stories \<Longrightarrow>
   template_safe stories \<Longrightarrow>
   model_reply w = Inr result \<Longrightarrow>
   map_of s ''history'' = Some (PList hs) \<Longrightarrow>
   fst (generate_code w s) = Inr ()"
  by (simp add: generate_code_def exec_defs update_conv')

lemma code_review_returns:
  "map_of s ''code'' = Some code \<Longrightarrow>
   template_safe code \<Longrightarrow>
   model_reply w = Inr result \<Longrightarrow>
   map_of s ''feedback'' = Some (PDict fb) \<Longrightarrow>
   getitem result ''approved'' = Inr a \<Longrightarrow>
   map_of s ''history'' = Some (PList hs) \<Longrightarrow>
   fst (code_review w s) = Inr ()"
  by (simp add: code_review_def exec_defs update_conv')

lemma fix_code_after_review_returns:
  "map_of s ''code'' = Some code \<Longrightarrow>
   template_safe code \<Longrightarrow>
   map_of s ''feedback'' = Some (PDict fb) \<Longrightarrow>
   map_of fb ''code_review'' = Some review \<Longrightarrow>
   template_safe review \<Longrightarrow>
   model_reply w = Inr result \<Longrightarrow>
   map_of s ''history'' = Some (PList hs) \<Longrightarrow>
   fst (fix_code_after_review w s) = Inr ()"
  by (simp add: fix_code_after_review_def exec_defs update_conv')

lemma security_review_returns:
  "map_of s ''code'' = Some code \<Longrightarrow>
   template_safe code \<Longrightarrow>
   model_reply w = Inr result \<Longrightarrow>
   map_of s ''feedback'' = Some (PDict fb) \<Longrightarrow>
   getitem result ''approved'' = Inr a \<Longrightarrow>
   map_of s ''history'' = Some (PList hs) \<Longrightarrow>
   fst (security_review w s) = Inr ()"
  by (simp add: security_review_def exec_defs update_conv')

lemma fix_code_after_security_returns:
  "map_of s ''code'' = Some code \<Longrightarrow>
   template_safe code \<Longrightarrow>
   map_of s ''feedback'' = Some (PDict fb) \<Longrightarrow>
   map_of fb ''security_review'' = Some review \<Longrightarrow>
   template_safe review \<Longrightarrow>
   model_reply w = Inr result \<Longrightarrow>
   map_of s ''history'' = Some (PList hs) \<Longrightarrow>
   fst (fix_code_after_security w s) = Inr ()"
  by (simp add: fix_code_after_security_def exec_defs update_conv')

lemma write_test_cases_returns:
  "map_of s ''user_stories'' = Some stories \<Longrightarrow>
   template_safe stories \<Longrightarrow>
   map_of s ''code'' = Some code \<Longrightarrow>
   template_safe code \<Longrightarrow>
   model_reply w = Inr result \<Longrightarrow>
   getitem result ''test_cases'' = Inr new \<Longrightarrow>
   py_len new = Inr n \<Longrightarrow>
   map_of s ''history'' = Some (PList hs) \<Longrightarrow>
   fst (write_test_cases w s) = Inr ()"
  by (simp add: write_test_cases_def exec_defs update_conv')

lemma test_cases_review_returns:
  "map_of s ''test_cases'' = Some tests \<Longrightarrow>
   template_safe tests \<Longrightarrow>
   map_of s ''user_stories'' = Some stories \<Longrightarrow>
   template_safe stories \<Longrightarrow>
   model_reply w = Inr result \<Longrightarrow>
   map_of s ''feedback'' = Some (PDict fb) \<Longrightarrow>
   getitem result ''approved'' = Inr a \<Longrightarrow>
   map_of s ''history'' = Some (PList hs) \<Longrightarrow>
   fst (test_cases_review w s) = Inr ()"
  by (simp add: test_cases_review_def exec_defs update_conv')

lemma fix_test_cases_returns:
  "map_of s ''test_cases'' = Some tests \<Longrightarrow>
   template_safe tests \<Longrightarrow>
   map_of s ''feedback'' = Some (PDict fb) \<Longrightarrow>
   map_of fb ''test_cases_review'' = Some review \<Longrightarrow>
   template_safe review \<Longrightarrow>
   model_reply w = Inr result \<Longrightarrow>
   getitem result ''test_cases'' = Inr new \<Longrightarrow>
   map_of s ''history'' = Some (PList hs) \<Longrightarrow>
   fst (fix_test_cases w s) = Inr ()"
  by (simp add: fix_test_cases_def exec_defs update_conv')

lemma qa_testing_returns:
  "map_of s ''code'' = Some code \<Longrightarrow>
   template_safe code \<Longrightarrow>
   map_of s ''test_cases'' = Some tests \<Longrightarrow>
   template_safe tests \<Longrightarrow>
   model_reply w = Inr result \<Longrightarrow>
   getitem result ''passed'' = Inr p \<Longrightarrow>
   getitem result ''pass_rate'' = Inr rate \<Longrightarrow>
   map_of s ''history'' = Some (PList hs) \<Longrightarrow>
   fst (qa_testing w s) = Inr ()"
  by (simp add: qa_testing_def exec_defs update_conv')

lemma fix_code_after_qa_returns:
  "map_of s ''code'' = Some code \<Longrightarrow>
   template_safe code \<Longrightarrow>
   map_of s ''qa_results'' = Some qa \<Longrightarrow>
   template_safe qa \<Longrightarrow>
   model_reply w = Inr result \<Longrightarrow>
   map_of s ''history'' = Some (PList hs) \<Longrightarrow>
   fst (fix_code_after_qa w s) = Inr ()"
  by (simp add: fix_code_after_qa_def exec_defs update_conv')

lemma deployment_returns:
  "map_of s ''code'' = Some code \<Longrightarrow>
   template_safe code \<Longrightarrow>
   model_reply w = Inr result \<Longrightarrow>
   map_of s ''history'' = Some (PList hs) \<Longrightarrow>
   fst (deployment w s) = Inr ()"
  by (simp add: deployment_def exec_defs update_conv')

lemma monitoring_returns:
  "map_of s ''deployment_plan'' = Some plan \<Longrightarrow>
   template_safe plan \<Longrightarrow>
   model_reply w = Inr result \<Longrightarrow>
   map_of s ''history'' = Some (PList hs) \<Longrightarrow>
   fst (monitoring w s) = Inr ()"
  by (simp add: monitoring_def exec_defs update_conv')

lemmas handler_returns =
  requirements_collect_requirements_returns
  collect_requirements_returns
  generate_user_stories_returns
  product_owner_review_returns
  revise_user_stories_returns
  create_design_documents_returns
  design_review_returns
  revise_design_documents_returns
  generate_code_returns
  code_review_returns
  fix_code_after_review_returns
  security_review_returns
  fix_code_after_security_returns
  write_test_cases_returns
  test_cases_review_returns
  fix_test_cases_returns
  qa_testing_returns
  fix_code_after_qa_returns
  deployment_returns
  monitoring_returns

section \<open>The history\<close>

lemma handlers_history:
  assumes "h \<in> set handlers" and "h w s = (Inr (), s')"
  shows "\<exists>hs e. map_of s ''history'' = Some (PList hs)
           \<and> map_of s' ''history'' = Some (PList (hs @ [e])) \<and> history_record e"
  using assms unfolding handlers_def model_handlers_def
  by (auto dest: handler_history)

lemma invoke_all_history:
  "list_all (\<lambda>c. fst c \<in> set handlers) calls \<Longrightarrow> invoke_all calls s = (Inr (), s') \<Longrightarrow>
   map_of s ''history'' = Some (PList hs) \<Longrightarrow>
   \<exists>new. map_of s' ''history'' = Some (PList (hs @ new)) \<and> length new = length calls
     \<and> list_all history_record new"
proof (induction calls arbitrary: s hs)
  case Nil
  then show ?case by (simp add: ret_Inr)
next
  case (Cons c calls)
  obtain h w where c: "c = (h, w)" by (cases c)
  from Cons.prems(2) c obtain u where
    first: "h w s = (Inr (), u)" and rest: "invoke_all calls u = (Inr (), s')"
    by (auto simp: seq_Inr)
  from Cons.prems(1) c have h: "h \<in> set handlers" and calls: "list_all (\<lambda>c. fst c \<in> set handlers) calls"
    by simp_all
  from handlers_history [OF h first] Cons.prems(3) obtain e where
    u: "map_of u ''history'' = Some (PList (hs @ [e]))" and e: "history_record e"
    by auto
  from Cons.IH [OF calls rest u] obtain new where
    new: "map_of s' ''history'' = Some (PList ((hs @ [e]) @ new))" "length new = length calls"
      "list_all history_record new"
    by blast
  show ?case
  proof (intro exI conjI)
    show "map_of s' ''history'' = Some (PList (hs @ (e # new)))" using new(1) by simp
    show "length (e # new) = length (c # calls)" using new(2) by simp
    show "list_all history_record (e # new)" using e new(3) by simp
  qed
qed

text \<open>
  C6: a successful invocation of any node function appends exactly one record with the
  keys actor, message and timestamp to the history and leaves the records before it as
  they were. So after \<open>N\<close> successful invocations, in any order, the history is the old
  one followed by \<open>N\<close> new records: from the empty history its length is \<open>N\<close>. The
  twenty node functions that can return do return whenever their reads succeed, their
  prompt is accepted, the model replies with the keys they ask for and the history is a
  list; \<^verbatim>\<open>maintenance\<close> and the three node functions of \<^verbatim>\<open>user-stories-module.py\<close> always
  raise and append nothing.
\<close>

theorem history_grows_by_one_per_invocation:
  "(list_all (\<lambda>c. fst c \<in> set handlers) calls \<longrightarrow>
    invoke_all calls s = (Inr (), s') \<longrightarrow>
    map_of s ''history'' = Some (PList hs) \<longrightarrow>
      (\<exists>new. map_of s' ''history'' = Some (PList (hs @ new))
             \<and> length new = length calls \<and> list_all history_record new))
   \<and>
   (map_of s ''user_inputs'' = Some (PDict inputs) \<longrightarrow>
     map_of s ''history'' = Some (PList hs) \<longrightarrow>
       fst (requirements_collect_requirements w s) = Inr ()) \<and>
   (map_of s ''history'' = Some (PList hs) \<longrightarrow>
     list_all chat_message hs \<longrightarrow>
     model_reply w' = Inr content \<longrightarrow>
     slice100 content = Inr head \<longrightarrow>
     map_of s ''user_inputs'' = Some (PDict inputs) \<longrightarrow>
       fst (collect_requirements w' s) = Inr ()) \<and>
   (map_of s ''user_inputs'' = Some (PDict inputs) \<longrightarrow>
     template_safe (case map_of inputs ''requirements_document'' of Some x \<Rightarrow> x | None \<Rightarrow> PStr []) \<longrightarrow>
     model_reply w = Inr result \<longrightarrow>
     getitem result ''user_stories'' = Inr new \<longrightarrow>
     py_len new = Inr n \<longrightarrow>
     map_of s ''history'' = Some (PList hs) \<longrightarrow>
       fst (generate_user_stories w s) = Inr ()) \<and>
   (map_of s ''user_stories'' = Some stories \<longrightarrow>
     template_safe stories \<longrightarrow>
     model_reply w = Inr result \<longrightarrow>
     map_of s ''feedback'' = Some (PDict fb) \<longrightarrow>
     getitem result ''approved'' = Inr a \<longrightarrow>
     map_of s ''history'' = Some (PList hs) \<longrightarrow>
       fst (product_owner_review w s) = Inr ()) \<and>
   (map_of s ''user_stories'' = Some stories \<longrightarrow>
     template_safe stories \<longrightarrow>
     map_of s ''feedback'' = Some (PDict fb) \<longrightarrow>
     map_of fb ''product_owner'' = Some review \<longrightarrow>
     template_safe review \<longrightarrow>
     model_reply w = Inr result \<longrightarrow>
     getitem result ''user_stories'' = Inr new \<longrightarrow>
     map_of s ''history'' = Some (PList hs) \<longrightarrow>
       fst (revise_user_stories w s) = Inr ()) \<and>
   (map_of s ''user_stories'' = Some stories \<longrightarrow>
     template_safe stories \<longrightarrow>
     map_of s ''user_inputs'' = Some (PDict inputs) \<longrightarrow>
     template_safe (case map_of inputs ''requirements_document'' of Some x \<Rightarrow> x | None \<Rightarrow> PStr []) \<longrightarrow>
     model_reply w = Inr result \<longrightarrow>
     map_of s ''history'' = Some (PList hs) \<longrightarrow>
       fst (create_design_documents w s) = Inr ()) \<and>
   (map_of s ''design_documents'' = Some design \<longrightarrow>
     template_safe design \<longrightarrow>
     model_reply w = Inr result \<longrightarrow>
     map_of s ''feedback'' = Some (PDict fb) \<longrightarrow>
     getitem result ''approved'' = Inr a \<longrightarrow>
     map_of s ''history'' = Some (PList hs) \<longrightarrow>
       fst (design_review w s) = Inr ()) \<and>
   (map_of s ''design_documents'' = Some design \<longrightarrow>
     template_safe design \<longrightarrow>
     map_of s ''feedback'' = Some (PDict fb) \<longrightarrow>
     map_of fb ''design_review'' = Some review \<longrightarrow>
     template_safe review \<longrightarrow>
     model_reply w = Inr result \<longrightarrow>
     map_of s ''history'' = Some (PList hs) \<longrightarrow>
       fst (revise_design_documents w s) = Inr ()) \<and>
   (map_of s ''design_documents'' = Some design \<longrightarrow>
     template_safe design \<longrightarrow>
     map_of s ''user_stories'' = Some stories \<longrightarrow>
     template_safe stories \<longrightarrow>
     model_reply w = Inr result \<longrightarrow>
     map_of s ''history'' = Some (PList hs) \<longrightarrow>
       fst (generate_code w s) = Inr ()) \<and>
   (map_of s ''code'' = Some code \<longrightarrow>
     template_safe code \<longrightarrow>
     model_reply w = Inr result \<longrightarrow>
     map_of s ''feedback'' = Some (PDict fb) \<longrightarrow>
     getitem result ''approved'' = Inr a \<longrightarrow>
     map_of s ''history'' = Some (PList hs) \<longrightarrow>
       fst (code_review w s) = Inr ()) \<and>
   (map_of s ''code'' = Some code \<longrightarrow>
     template_safe code \<longrightarrow>
     map_of s ''feedback'' = Some (PDict fb) \<longrightarrow>
     map_of fb ''code_review'' = Some review \<longrightarrow>
     template_safe review \<longrightarrow>
     model_reply w = Inr result \<longrightarrow>
     map_of s ''history'' = Some (PList hs) \<longrightarrow>
       fst (fix_code_after_review w s) = Inr ()) \<and>
   (map_of s ''code'' = Some code \<longrightarrow>
     template_safe code \<longrightarrow>
     model_reply w = Inr result \<longrightarrow>
     map_of s ''feedback'' = Some (PDict fb) \<longrightarrow>
     getitem result ''approved'' = Inr a \<longrightarrow>
     map_of s ''history'' = Some (PList hs) \<longrightarrow>
       fst (security_review w s) = Inr ()) \<and>
   (map_of s ''code'' = Some code \<longrightarrow>
     template_safe code \<longrightarrow>
     map_of s ''feedback'' = Some (PDict fb) \<longrightarrow>
     map_of fb ''security_review'' = Some review \<longrightarrow>
     template_safe review \<longrightarrow>
     model_reply w = Inr result \<longrightarrow>
     map_of s ''history'' = Some (PList hs) \<longrightarrow>
       fst (fix_code_after_security w s) = Inr ()) \<and>
   (map_of s ''user_stories'' = Some stories \<longrightarrow>
     template_safe stories \<longrightarrow>
     map_of s ''code'' = Some code \<longrightarrow>
     template_safe code \<longrightarrow>
     model_reply w = Inr result \<longrightarrow>
     getitem result ''test_cases'' = Inr new \<longrightarrow>
     py_len new = Inr n \<longrightarrow>
     map_of s ''history'' = Some (PList hs) \<longrightarrow>
       fst (write_test_cases w s) = Inr ()) \<and>
   (map_of s ''test_cases'' = Some tests \<longrightarrow>
     template_safe tests \<longrightarrow>
     map_of s ''user_stories'' = Some stories \<longrightarrow>
     template_safe stories \<longrightarrow>
     model_reply w = Inr result \<longrightarrow>
     map_of s ''feedback'' = Some (PDict fb) \<longrightarrow>
     getitem result ''approved'' = Inr a \<longrightarrow>
     map_of s ''history'' = Some (PList hs) \<longrightarrow>
       fst (test_cases_review w s) = Inr ()) \<and>
   (map_of s ''test_cases'' = Some tests \<longrightarrow>
     template_safe tests \<longrightarrow>
     map_of s ''feedback'' = Some (PDict fb) \<longrightarrow>
     map_of fb ''test_cases_review'' = Some review \<longrightarrow>
     template_safe review \<longrightarrow>
     model_reply w = Inr result \<longrightarrow>
     getitem result ''test_cases'' = Inr new \<longrightarrow>
     map_of s ''history'' = Some (PList hs) \<longrightarrow>
       fst (fix_test_cases w s) = Inr ()) \<and>
   (map_of s ''code'' = Some code \<longrightarrow>
     template_safe code \<longrightarrow>
     map_of s ''test_cases'' = Some tests \<longrightarrow>
     template_safe tests \<longrightarrow>
     model_reply w = Inr result \<longrightarrow>
     getitem result ''passed'' = Inr p \<longrightarrow>
     getitem result ''pass_rate'' = Inr rate \<longrightarrow>
     map_of s ''history'' = Some (PList hs) \<longrightarrow>
       fst (qa_testing w s) = Inr ()) \<and>
   (map_of s ''code'' = Some code \<longrightarrow>
     template_safe code \<longrightarrow>
     map_of s ''qa_results'' = Some qa \<longrightarrow>
     template_safe qa \<longrightarrow>
     model_reply w = Inr result \<longrightarrow>
     map_of s ''history'' = Some (PList hs) \<longrightarrow>
       fst (fix_code_after_qa w s) = Inr ()) \<and>
   (map_of s ''code'' = Some code \<longrightarrow>
     template_safe code \<longrightarrow>
     model_reply w = Inr result \<longrightarrow>
     map_of s ''history'' = Some (PList hs) \<longrightarrow>
       fst (deployment w s) = Inr ()) \<and>
   (map_of s ''deployment_plan'' = Some plan \<longrightarrow>
     template_safe plan \<longrightarrow>
     model_reply w = Inr result \<longrightarrow>
     map_of s ''history'' = Some (PList hs) \<longrightarrow>
       fst (monitoring w s) = Inr ())"
  by (intro conjI impI; (rule invoke_all_history handler_returns; assumption))

theorem history_grows_by_one_per_invocation_witness:
  "(\<exists>new. map_of (snd (invoke_all two_calls initial_state)) ''history'' = Some (PList new)
      \<and> length new = 2 \<and> list_all history_record new)
   \<and> fst (requirements_collect_requirements (reply full_reply) plain_state) = Inr ()
   \<and> fst (collect_requirements (reply (PStr ''A shop for books'')) plain_state) = Inr ()
   \<and> fst (generate_user_stories (reply full_reply) plain_state) = Inr ()
   \<and> fst (product_owner_review (reply full_reply) plain_state) = Inr ()
   \<and> fst (revise_user_stories (reply full_reply) plain_state) = Inr ()
   \<and> fst (create_design_documents (reply full_reply) plain_state) = Inr ()
   \<and> fst (design_review (reply full_reply) plain_state) = Inr ()
   \<and> fst (revise_design_documents (reply full_reply) plain_state) = Inr ()
   \<and> fst (generate_code (reply full_reply) plain_state) = Inr ()
   \<and> fst (code_review (reply full_reply) plain_state) = Inr ()
   \<and> fst (fix_code_after_review (reply full_reply) plain_state) = Inr ()
   \<and> fst (security_review (reply full_reply) plain_state) = Inr ()
   \<and> fst (fix_code_after_security (reply full_reply) plain_state) = Inr ()
   \<and> fst (write_test_cases (reply full_reply) plain_state) = Inr ()
   \<and> fst (test_cases_review (reply full_reply) plain_state) = Inr ()
   \<and> fst (fix_test_cases (reply full_reply) plain_state) = Inr ()
   \<and> fst (qa_testing (reply full_reply) plain_state) = Inr ()
   \<and> fst (fix_code_after_qa (reply full_reply) plain_state) = Inr ()
   \<and> fst (deployment (reply full_reply) plain_state) = Inr ()
   \<and> fst (monitoring (reply full_reply) plain_state) = Inr ()"
proof -
  have calls: "list_all (\<lambda>c. fst c \<in> set handlers) two_calls"
    by (simp add: two_calls_def handlers_def model_handlers_def)
  have "fst (invoke_all two_calls initial_state) = Inr ()"
    by (simp add: two_calls_def requirements_collect_requirements_def generate_user_stories_def
          one_story_def run_defs)
  then have ran: "invoke_all two_calls initial_state
                    = (Inr (), snd (invoke_all two_calls initial_state))"
    by (rule outcome)
  have empty: "map_of initial_state ''history'' = Some (PList [])"
    by (simp add: initial_state_def)
  have st:
    "map_of plain_state ''user_inputs''
       = Some (PDict [(''requirements_document'', PStr ''Sample requirements document'')])"
    "map_of plain_state ''user_stories'' = Some (PList [PStr ''As a user, I want to sign in''])"
    "map_of plain_state ''design_documents'' = Some (PStr ''Three-tier web application'')"
    "map_of plain_state ''code'' = Some (PStr ''def main(): pass'')"
    "map_of plain_state ''test_cases'' = Some (PList [PStr ''Sign in with a valid password''])"
    "map_of plain_state ''qa_results'' = Some (PStr ''One of three tests failed'')"
    "map_of plain_state ''deployment_plan'' = Some (PStr ''Blue-green deployment'')"
    "map_of plain_state ''history'' = Some (PList [])"
    "map_of plain_state ''feedback'' = Some (PDict plain_feedback)"
    by (simp_all add: plain_state_def plain_feedback_def)
  have fb:
    "map_of plain_feedback ''product_owner'' = Some (PStr ''Add acceptance criteria'')"
    "map_of plain_feedback ''design_review'' = Some (PStr ''Describe the data model'')"
    "map_of plain_feedback ''code_review'' = Some (PStr ''Handle the error case'')"
    "map_of plain_feedback ''security_review'' = Some (PStr ''Validate the input'')"
    "map_of plain_feedback ''test_cases_review'' = Some (PStr ''Cover the failure path'')"
    by (simp_all add: plain_feedback_def)
  have rp: "model_reply (reply full_reply) = Inr full_reply"
    "model_reply (reply (PStr ''A shop for books'')) = Inr (PStr ''A shop for books'')"
    "getitem full_reply ''user_stories'' = Inr (PList [PDict [(''id'', PStr ''US-001'')]])"
    "getitem full_reply ''test_cases'' = Inr (PList [PDict [(''id'', PStr ''TC-001'')]])"
    "getitem full_reply ''approved'' = Inr (PBool False)"
    "getitem full_reply ''passed'' = Inr (PBool True)"
    "getitem full_reply ''pass_rate'' = Inr (PInt 100)"
    by (simp_all add: reply_def full_reply_def)
  note grows = history_grows_by_one_per_invocation
    [of two_calls initial_state "snd (invoke_all two_calls initial_state)" "[]",
     THEN conjunct1, rule_format, OF calls ran empty]
  note returns = history_grows_by_one_per_invocation
    [of _ plain_state _ "[]"
        "[(''requirements_document'', PStr ''Sample requirements document'')]"
        "reply full_reply" "reply (PStr ''A shop for books'')" "PStr ''A shop for books''"
        "PStr ''A shop for books''" full_reply _ _ "PList [PStr ''As a user, I want to sign in'']"
        plain_feedback, THEN conjunct2]
  show ?thesis
    using grows returns st fb rp
    by (simp add: two_calls_def numeral_2_eq_2)
qed

section \<open>A failing model call\<close>

lemma handlers_model_failure:
  assumes "h \<in> set model_handlers" and "model_reply w = Inl r"
  shows "snd (h w s) = s \<and> isl (fst (h w s))
       \<and> (fst (h w s) \<noteq> Inl (ModelCallError r) \<longrightarrow> h (w\<lparr>model_reply := Inr v\<rparr>) s = h w s)"
  using assms(1) unfolding model_handlers_def
  by (simp only: list.set insert_iff empty_iff) (elim disjE FalseE; hypsubst; rule handler_model_failure [OF assms(2)])

lemma seq_failed: "isl (fst (m s)) \<Longrightarrow> seq m (n :: unit exec) s = m s"
  by (auto simp: seq_def bnd_def isl_def split: prod.splits sum.splits)

lemma exec_step_failed:
  "map_of (nodes g) name = Some h \<Longrightarrow> isl (fst (h w s)) \<Longrightarrow> exec_step g name w s = h w s"
  by (simp add: exec_step_def seq_failed)

lemma run_failed:
  assumes "map_of s ''current_step'' = Some (PStr name)" and "name \<noteq> END"
      and "map_of (nodes g) name = Some h" and "isl (fst (h w s))"
  shows "run g (w # ws) s = ([], fst (h w s), snd (h w s))"
  using assms by (cases "h w s") (auto simp: exec_step_failed isl_def)

text \<open>
  C8: when the model call fails, a node function that calls the model raises and the
  state is exactly what it was: nothing written, no history record, \<^verbatim>\<open>current_step\<close>
  untouched. What it raises is the model failure, unless one of its reads had already
  raised before the call was reached (then the outcome does not depend on the model at
  all). The Executor's iteration fails with it, so the run stops at that step with the
  state unchanged.
\<close>

theorem model_failure_leaves_state_unchanged:
  assumes "h \<in> set model_handlers" and "model_reply w = Inl r"
  shows "snd (h w s) = s \<and> isl (fst (h w s))
       \<and> (fst (h w s) \<noteq> Inl (ModelCallError r) \<longrightarrow> h (w\<lparr>model_reply := Inr v\<rparr>) s = h w s)
       \<and> (map_of s ''current_step'' = Some (PStr name) \<longrightarrow> name \<noteq> END \<longrightarrow>
          map_of (nodes create_development_workflow) name = Some h \<longrightarrow>
            run create_development_workflow (w # ws) s = ([], fst (h w s), s))"
proof -
  note f = handlers_model_failure [OF assms, of s v]
  from f have unchanged: "snd (h w s) = s" and failed: "isl (fst (h w s))"
    by simp_all
  have "run create_development_workflow (w # ws) s = ([], fst (h w s), s)"
    if "map_of s ''current_step'' = Some (PStr name)" and "name \<noteq> END"
      and "map_of (nodes create_development_workflow) name = Some h"
    using run_failed [OF that failed, of ws] unchanged by simp
  then show ?thesis using f by blast
qed

theorem model_failure_leaves_state_unchanged_witness:
  "create_design_documents (failure ''timeout'') initial_state
     = (Inl (ModelCallError ''timeout''), initial_state)
   \<and> run create_development_workflow [failure ''timeout'']
        (AList.update ''current_step'' (PStr ''create_design_documents'') initial_state)
       = ([], Inl (ModelCallError ''timeout''),
          AList.update ''current_step'' (PStr ''create_design_documents'') initial_state)"
proof -
  have a: "create_design_documents \<in> set model_handlers"
    by (simp add: model_handlers_def)
  have b: "model_reply (failure ''timeout'') = Inl ''timeout''"
    by (simp add: failure_def)
  have c: "fst (create_design_documents (failure ''timeout'') s) = Inl (ModelCallError ''timeout'')"
    if "s = initial_state
        \<or> s = AList.update ''current_step'' (PStr ''create_design_documents'') initial_state" for s
    using that by (auto simp: create_design_documents_def run_defs)
  have d: "map_of (nodes create_development_workflow) ''create_design_documents''
             = Some create_design_documents"
    by (simp add: workflow_nodes)
  show ?thesis
    using model_failure_leaves_state_unchanged [OF a b, of initial_state]
      model_failure_leaves_state_unchanged [OF a b,
        of "AList.update ''current_step'' (PStr ''create_design_documents'') initial_state" _
           "''create_design_documents''" "[]"] c d
    by (simp add: prod_eq_iff END_def initial_state_def)
qed

section \<open>Revising the user stories\<close>

lemma rejected_state_reached: "invoke_all rejected_calls initial_state = (Inr (), rejected_state)"
  by (simp add: rejected_calls_def rejected_state_def requirements_collect_requirements_def
        generate_user_stories_def product_owner_review_def one_story_def rejection_def run_defs)

text \<open>
  Where its prompt is accepted (stories and feedback print without braces) and the model
  replies with an entry \<^verbatim>\<open>user_stories\<close>, \<^verbatim>\<open>revise_user_stories\<close> replaces the field by that
  entry, whatever the field held before.
\<close>

lemma revise_user_stories_replaces_where_it_runs:
  assumes "map_of s ''user_stories'' = Some old" and "template_safe old"
      and "map_of s ''feedback'' = Some (PDict fb)"
      and "map_of fb ''product_owner'' = Some review" and "template_safe review"
      and "map_of s ''history'' = Some (PList hs)"
      and "model_reply w = Inr result"
      and "getitem result ''user_stories'' = Inr new"
  shows "fst (revise_user_stories w s) = Inr ()
       \<and> map_of (snd (revise_user_stories w s)) ''user_stories'' = Some new"
  using assms by (simp add: revise_user_stories_def exec_defs update_conv')

text \<open>
  C5, where the code departs from it. After \<^verbatim>\<open>requirements.collect_requirements\<close>,
  \<^verbatim>\<open>generate_user_stories\<close> and a rejecting \<^verbatim>\<open>product_owner_review\<close> have run on the
  initial state, \<^verbatim>\<open>user_stories\<close> is a list of one story and the product owner's
  feedback is the review record, a dictionary. \<^verbatim>\<open>revise_user_stories\<close> pastes that
  record into its prompt template, where its braces read as a template variable, so the
  chain raises before the model is called. The node function of
  \<^verbatim>\<open>user-stories-module.py\<close> raises as well, having no model to pipe the prompt
  into. The revision of two stories the model would reply with is never stored: the
  state, and with it the list of one story, stays as it was.
\<close>

theorem revise_user_stories_raises_after_review:
  "invoke_all rejected_calls initial_state = (Inr (), rejected_state)
   \<and> map_of rejected_state ''user_stories'' = Some (PList [PStr ''As a user, I want to sign in''])
   \<and> feedback_of rejected_state ''product_owner'' = Some rejection
   \<and> getitem revision ''user_stories''
       = Inr (PList [PDict [(''id'', PStr ''US-001'')], PDict [(''id'', PStr ''US-002'')]])
   \<and> revise_user_stories (reply revision) rejected_state = (Inl ChainError, rejected_state)
   \<and> user_stories_revise_user_stories (reply revision) rejected_state
       = (Inl ChainError, rejected_state)"
proof -
  have "revise_user_stories (reply revision) rejected_state = (Inl ChainError, rejected_state)"
    by (simp add: revise_user_stories_def rejected_state_def rejection_def exec_defs)
  moreover have "user_stories_revise_user_stories (reply revision) rejected_state
                   = (Inl ChainError, rejected_state)"
    by (simp add: user_stories_revise_user_stories_def rejected_state_def rejection_def exec_defs)
  moreover have "map_of rejected_state ''user_stories''
                   = Some (PList [PStr ''As a user, I want to sign in''])"
    and "feedback_of rejected_state ''product_owner'' = Some rejection"
    by (simp_all add: rejected_state_def feedback_of_def)
  ultimately show ?thesis
    using rejected_state_reached by (simp add: revision_def)
qed

section \<open>Where the gate handlers keep their result\<close>

lemma product_owner_review_feedback:
  "product_owner_review w s = (Inr (), s') \<Longrightarrow> model_reply w = Inr result \<Longrightarrow>
   feedback_of s' ''product_owner'' = Some result
   \<and> (\<forall>k. k \<noteq> ''product_owner'' \<longrightarrow> feedback_of s' k = feedback_of s k)
   \<and> product_owner_review_decision s'
       = Inr (if flag_of result ''approved'' then ''create_design_documents'' else ''revise_user_stories'')"
  unfolding product_owner_review_def
  by (auto simp: ok_simps feedback_of_def flag_of_def decision_defs approval_route_def)

lemma design_review_feedback:
  "design_review w s = (Inr (), s') \<Longrightarrow> model_reply w = Inr result \<Longrightarrow>
   feedback_of s' ''design_review'' = Some result
   \<and> (\<forall>k. k \<noteq> ''design_review'' \<longrightarrow> feedback_of s' k = feedback_of s k)
   \<and> design_review_decision s'
       = Inr (if flag_of result ''approved'' then ''generate_code'' else ''revise_design_documents'')"
  unfolding design_review_def
  by (auto simp: ok_simps feedback_of_def flag_of_def decision_defs approval_route_def)

lemma code_review_feedback:
  "code_review w s = (Inr (), s') \<Longrightarrow> model_reply w = Inr result \<Longrightarrow>
   feedback_of s' ''code_review'' = Some result
   \<and> (\<forall>k. k \<noteq> ''code_review'' \<longrightarrow> feedback_of s' k = feedback_of s k)
   \<and> code_review_decision s'
       = Inr (if flag_of result ''approved'' then ''security_review'' else ''fix_code_after_review'')"
  unfolding code_review_def
  by (auto simp: ok_simps feedback_of_def flag_of_def decision_defs approval_route_def)

lemma security_review_feedback:
  "security_review w s = (Inr (), s') \<Longrightarrow> model_reply w = Inr result \<Longrightarrow>
   feedback_of s' ''security_review'' = Some result
   \<and> (\<forall>k. k \<noteq> ''security_review'' \<longrightarrow> feedback_of s' k = feedback_of s k)
   \<and> security_review_decision s'
       = Inr (if flag_of result ''approved'' then ''write_test_cases'' else ''fix_code_after_security'')"
  unfolding security_review_def
  by (auto simp: ok_simps feedback_of_def flag_of_def decision_defs approval_route_def)

lemma test_cases_review_feedback:
  "test_cases_review w s = (Inr (), s') \<Longrightarrow> model_reply w = Inr result \<Longrightarrow>
   feedback_of s' ''test_cases_review'' = Some result
   \<and> (\<forall>k. k \<noteq> ''test_cases_review'' \<longrightarrow> feedback_of s' k = feedback_of s k)
   \<and> test_cases_review_decision s'
       = Inr (if flag_of result ''approved'' then ''qa_testing'' else ''fix_test_cases'')"
  unfolding test_cases_review_def
  by (auto simp: ok_simps feedback_of_def flag_of_def decision_defs approval_route_def)

lemma qa_testing_results:
  "qa_testing w s = (Inr (), s') \<Longrightarrow> model_reply w = Inr result \<Longrightarrow>
   map_of s' ''qa_results'' = Some result \<and> map_of s' ''feedback'' = map_of s ''feedback''
   \<and> qa_testing_decision s'
       = Inr (if flag_of result ''passed'' then ''deployment'' else ''fix_code_after_qa'')"
  unfolding qa_testing_def
  by (auto simp: ok_simps flag_of_def qa_testing_decision_def)

text \<open>
  C7, as the code has it. After \<^verbatim>\<open>product_owner_review\<close> has run on the initial state,
  the feedback mapping has no entry under the gate's own name
  \<^verbatim>\<open>product_owner_review\<close>: the review is kept under \<^verbatim>\<open>product_owner\<close>.
\<close>

theorem feedback_key_counterexample:
  "fst (product_owner_review (reply approval) initial_state) = Inr ()
   \<and> feedback_of (snd (product_owner_review (reply approval) initial_state))
        ''product_owner_review'' = None
   \<and> feedback_of (snd (product_owner_review (reply approval) initial_state))
        ''product_owner'' = Some approval"
  by (simp add: product_owner_review_def run_defs feedback_of_def)

text \<open>
  C7, amended: every review handler of \<^verbatim>\<open>development-workflow-agent.py\<close> that returns
  has written the model's result into the feedback mapping under the key its decision
  function reads, replacing what was there and leaving every other key of the mapping
  as it was: \<^verbatim>\<open>product_owner\<close> for \<^verbatim>\<open>product_owner_review\<close>, the step's own name for
  \<^verbatim>\<open>design_review\<close>, \<^verbatim>\<open>code_review\<close>, \<^verbatim>\<open>security_review\<close> and \<^verbatim>\<open>test_cases_review\<close>.
  \<^verbatim>\<open>qa_testing\<close> writes its result into the field \<^verbatim>\<open>qa_results\<close> and leaves the feedback
  mapping as it was. In each case the step resolved after the handler follows the flag
  of the result just written. Each handler returns whenever what it pastes into its
  prompt prints without braces, the model's result has the flag, and the feedback
  mapping and the history are there.
\<close>

theorem gate_handlers_write_decision_key:
  "(model_reply w = Inr result \<longrightarrow> fst (product_owner_review w s) = Inr () \<longrightarrow>
      feedback_of (snd (product_owner_review w s)) ''product_owner'' = Some result
      \<and> (k \<noteq> ''product_owner'' \<longrightarrow>
           feedback_of (snd (product_owner_review w s)) k = feedback_of s k)
      \<and> resolve_next create_development_workflow ''product_owner_review'' (snd (product_owner_review w s))
          = Inr (if flag_of result ''approved'' then ''create_design_documents''
                 else ''revise_user_stories''))
   \<and> (map_of s ''user_stories'' = Some stories \<longrightarrow>
      template_safe stories \<longrightarrow>
      model_reply w = Inr result \<longrightarrow>
      map_of s ''feedback'' = Some (PDict fb) \<longrightarrow>
      getitem result ''approved'' = Inr a \<longrightarrow>
      map_of s ''history'' = Some (PList hs) \<longrightarrow>
        fst (product_owner_review w s) = Inr ())
   \<and> (model_reply w = Inr result \<longrightarrow> fst (design_review w s) = Inr () \<longrightarrow>
      feedback_of (snd (design_review w s)) ''design_review'' = Some result
      \<and> (k \<noteq> ''design_review'' \<longrightarrow>
           feedback_of (snd (design_review w s)) k = feedback_of s k)
      \<and> resolve_next create_development_workflow ''design_review'' (snd (design_review w s))
          = Inr (if flag_of result ''approved'' then ''generate_code''
                 else ''revise_design_documents''))
   \<and> (map_of s ''design_documents'' = Some design \<longrightarrow>
      template_safe design \<longrightarrow>
      model_reply w = Inr result \<longrightarrow>
      map_of s ''feedback'' = Some (PDict fb) \<longrightarrow>
      getitem result ''approved'' = Inr a \<longrightarrow>
      map_of s ''history'' = Some (PList hs) \<longrightarrow>
        fst (design_review w s) = Inr ())
   \<and> (model_reply w = Inr result \<longrightarrow> fst (code_review w s) = Inr () \<longrightarrow>
      feedback_of (snd (code_review w s)) ''code_review'' = Some result
      \<and> (k \<noteq> ''code_review'' \<longrightarrow>
           feedback_of (snd (code_review w s)) k = feedback_of s k)
      \<and> resolve_next create_development_workflow ''code_review'' (snd (code_review w s))
          = Inr (if flag_of result ''approved'' then ''security_review''
                 else ''fix_code_after_review''))
   \<and> (map_of s ''code'' = Some code \<longrightarrow>
      template_safe code \<longrightarrow>
      model_reply w = Inr result \<longrightarrow>
      map_of s ''feedback'' = Some (PDict fb) \<longrightarrow>
      getitem result ''approved'' = Inr a \<longrightarrow>
      map_of s ''history'' = Some (PList hs) \<longrightarrow>
        fst (code_review w s) = Inr ())
   \<and> (model_reply w = Inr result \<longrightarrow> fst (security_review w s) = Inr () \<longrightarrow>
      feedback_of (snd (security_review w s)) ''security_review'' = Some result
      \<and> (k \<noteq> ''security_review'' \<longrightarrow>
           feedback_of (snd (security_review w s)) k = feedback_of s k)
      \<and> resolve_next create_development_workflow ''security_review'' (snd (security_review w s))
          = Inr (if flag_of result ''approved'' then ''write_test_cases''
                 else ''fix_code_after_security''))
   \<and> (map_of s ''code'' = Some code \<longrightarrow>
      template_safe code \<longrightarrow>
      model_reply w = Inr result \<longrightarrow>
      map_of s ''feedback'' = Some (PDict fb) \<longrightarrow>
      getitem result ''approved'' = Inr a \<longrightarrow>
      map_of s ''history'' = Some (PList hs) \<longrightarrow>
        fst (security_review w s) = Inr ())
   \<and> (model_reply w = Inr result \<longrightarrow> fst (test_cases_review w s) = Inr () \<longrightarrow>
      feedback_of (snd (test_cases_review w s)) ''test_cases_review'' = Some result
      \<and> (k \<noteq> ''test_cases_review'' \<longrightarrow>
           feedback_of (snd (test_cases_review w s)) k = feedback_of s k)
      \<and> resolve_next create_development_workflow ''test_cases_review'' (snd (test_cases_review w s))
          = Inr (if flag_of result ''approved'' then ''qa_testing''
                 else ''fix_test_cases''))
   \<and> (map_of s ''test_cases'' = Some tests \<longrightarrow>
      template_safe tests \<longrightarrow>
      map_of s ''user_stories'' = Some stories \<longrightarrow>
      template_safe stories \<longrightarrow>
      model_reply w = Inr result \<longrightarrow>
      map_of s ''feedback'' = Some (PDict fb) \<longrightarrow>
      getitem result ''approved'' = Inr a \<longrightarrow>
      map_of s ''history'' = Some (PList hs) \<longrightarrow>
        fst (test_cases_review w s) = Inr ())
   \<and> (model_reply w = Inr result \<longrightarrow> fst (qa_testing w s) = Inr () \<longrightarrow>
      map_of (snd (qa_testing w s)) ''qa_results'' = Some result
      \<and> map_of (snd (qa_testing w s)) ''feedback'' = map_of s ''feedback''
      \<and> resolve_next create_development_workflow ''qa_testing'' (snd (qa_testing w s))
          = Inr (if flag_of result ''passed'' then ''deployment'' else ''fix_code_after_qa''))
   \<and> (map_of s ''code'' = Some code \<longrightarrow>
      template_safe code \<longrightarrow>
      map_of s ''test_cases'' = Some tests \<longrightarrow>
      template_safe tests \<longrightarrow>
      model_reply w = Inr result \<longrightarrow>
      getitem result ''passed'' = Inr p \<longrightarrow>
      getitem result ''pass_rate'' = Inr rate \<longrightarrow>
      map_of s ''history'' = Some (PList hs) \<longrightarrow>
        fst (qa_testing w s) = Inr ())"
proof -
  have product_owner_review_writes:
    "model_reply w = Inr result \<longrightarrow> fst (product_owner_review w s) = Inr () \<longrightarrow>
       feedback_of (snd (product_owner_review w s)) ''product_owner'' = Some result
       \<and> (k \<noteq> ''product_owner'' \<longrightarrow> feedback_of (snd (product_owner_review w s)) k = feedback_of s k)
       \<and> resolve_next create_development_workflow ''product_owner_review'' (snd (product_owner_review w s))
           = Inr (if flag_of result ''approved'' then ''create_design_documents''
                  else ''revise_user_stories'')"
  proof (intro impI)
    assume r: "model_reply w = Inr result" and ok: "fst (product_owner_review w s) = Inr ()"
    from product_owner_review_feedback [OF outcome [OF ok] r]
    show "feedback_of (snd (product_owner_review w s)) ''product_owner'' = Some result
       \<and> (k \<noteq> ''product_owner'' \<longrightarrow> feedback_of (snd (product_owner_review w s)) k = feedback_of s k)
       \<and> resolve_next create_development_workflow ''product_owner_review'' (snd (product_owner_review w s))
           = Inr (if flag_of result ''approved'' then ''create_design_documents''
                  else ''revise_user_stories'')"
      by (simp add: resolve_gates)
  qed
  have product_owner_review_runs:
    "map_of s ''user_stories'' = Some stories \<longrightarrow>
     template_safe stories \<longrightarrow>
     model_reply w = Inr result \<longrightarrow>
     map_of s ''feedback'' = Some (PDict fb) \<longrightarrow>
     getitem result ''approved'' = Inr a \<longrightarrow>
     map_of s ''history'' = Some (PList hs) \<longrightarrow>
       fst (product_owner_review w s) = Inr ()"
    by (intro impI) (rule product_owner_review_returns; assumption)
  have design_review_writes:
    "model_reply w = Inr result \<longrightarrow> fst (design_review w s) = Inr () \<longrightarrow>
       feedback_of (snd (design_review w s)) ''design_review'' = Some result
       \<and> (k \<noteq> ''design_review'' \<longrightarrow> feedback_of (snd (design_review w s)) k = feedback_of s k)
       \<and> resolve_next create_development_workflow ''design_review'' (snd (design_review w s))
           = Inr (if flag_of result ''approved'' then ''generate_code''
                  else ''revise_design_documents'')"
  proof (intro impI)
    assume r: "model_reply w = Inr result" and ok: "fst (design_review w s) = Inr ()"
    from design_review_feedback [OF outcome [OF ok] r]
    show "feedback_of (snd (design_review w s)) ''design_review'' = Some result
       \<and> (k \<noteq> ''design_review'' \<longrightarrow> feedback_of (snd (design_review w s)) k = feedback_of s k)
       \<and> resolve_next create_development_workflow ''design_review'' (snd (design_review w s))
           = Inr (if flag_of result ''approved'' then ''generate_code''
                  else ''revise_design_documents'')"
      by (simp add: resolve_gates)
  qed
  have design_review_runs:
    "map_of s ''design_documents'' = Some design \<longrightarrow>
     template_safe design \<longrightarrow>
     model_reply w = Inr result \<longrightarrow>
     map_of s ''feedback'' = Some (PDict fb) \<longrightarrow>
     getitem result ''approved'' = Inr a \<longrightarrow>
     map_of s ''history'' = Some (PList hs) \<longrightarrow>
       fst (design_review w s) = Inr ()"
    by (intro impI) (rule design_review_returns; assumption)
  have code_review_writes:
    "model_reply w = Inr result \<longrightarrow> fst (code_review w s) = Inr () \<longrightarrow>
       feedback_of (snd (code_review w s)) ''code_review'' = Some result
       \<and> (k \<noteq> ''code_review'' \<longrightarrow> feedback_of (snd (code_review w s)) k = feedback_of s k)
       \<and> resolve_next create_development_workflow ''code_review'' (snd (code_review w s))
           = Inr (if flag_of result ''approved'' then ''security_review''
                  else ''fix_code_after_review'')"
  proof (intro impI)
    assume r: "model_reply w = Inr result" and ok: "fst (code_review w s) = Inr ()"
    from code_review_feedback [OF outcome [OF ok] r]
    show "feedback_of (snd (code_review w s)) ''code_review'' = Some result
       \<and> (k \<noteq> ''code_review'' \<longrightarrow> feedback_of (snd (code_review w s)) k = feedback_of s k)
       \<and> resolve_next create_development_workflow ''code_review'' (snd (code_review w s))
           = Inr (if flag_of result ''approved'' then ''security_review''
                  else ''fix_code_after_review'')"
      by (simp add: resolve_gates)
  qed
  have code_review_runs:
    "map_of s ''code'' = Some code \<longrightarrow>
     template_safe code \<longrightarrow>
     model_reply w = Inr result \<longrightarrow>
     map_of s ''feedback'' = Some (PDict fb) \<longrightarrow>
     getitem result ''approved'' = Inr a \<longrightarrow>
     map_of s ''history'' = Some (PList hs) \<longrightarrow>
       fst (code_review w s) = Inr ()"
    by (intro impI) (rule code_review_returns; assumption)
  have security_review_writes:
    "model_reply w = Inr result \<longrightarrow> fst (security_review w s) = Inr () \<longrightarrow>
       feedback_of (snd (security_review w s)) ''security_review'' = Some result
       \<and> (k \<noteq> ''security_review'' \<longrightarrow> feedback_of (snd (security_review w s)) k = feedback_of s k)
       \<and> resolve_next create_development_workflow ''security_review'' (snd (security_review w s))
           = Inr (if flag_of result ''approved'' then ''write_test_cases''
                  else ''fix_code_after_security'')"
  proof (intro impI)
    assume r: "model_reply w = Inr result" and ok: "fst (security_review w s) = Inr ()"
    from security_review_feedback [OF outcome [OF ok] r]
    show "feedback_of (snd (security_review w s)) ''security_review'' = Some result
       \<and> (k \<noteq> ''security_review'' \<longrightarrow> feedback_of (snd (security_review w s)) k = feedback_of s k)
       \<and> resolve_next create_development_workflow ''security_review'' (snd (security_review w s))
           = Inr (if flag_of result ''approved'' then ''write_test_cases''
                  else ''fix_code_after_security'')"
      by (simp add: resolve_gates)
  qed
  have security_review_runs:
    "map_of s ''code'' = Some code \<longrightarrow>
     template_safe code \<longrightarrow>
     model_reply w = Inr result \<longrightarrow>
     map_of s ''feedback'' = Some (PDict fb) \<longrightarrow>
     getitem result ''approved'' = Inr a \<longrightarrow>
     map_of s ''history'' = Some (PList hs) \<longrightarrow>
       fst (security_review w s) = Inr ()"
    by (intro impI) (rule security_review_returns; assumption)
  have test_cases_review_writes:
    "model_reply w = Inr result \<longrightarrow> fst (test_cases_review w s) = Inr () \<longrightarrow>
       feedback_of (snd (test_cases_review w s)) ''test_cases_review'' = Some result
       \<and> (k \<noteq> ''test_cases_review'' \<longrightarrow> feedback_of (snd (test_cases_review w s)) k = feedback_of s k)
       \<and> resolve_next create_development_workflow ''test_cases_review'' (snd (test_cases_review w s))
           = Inr (if flag_of result ''approved'' then ''qa_testing''
                  else ''fix_test_cases'')"
  proof (intro impI)
    assume r: "model_reply w = Inr result" and ok: "fst (test_cases_review w s) = Inr ()"
    from test_cases_review_feedback [OF outcome [OF ok] r]
    show "feedback_of (snd (test_cases_review w s)) ''test_cases_review'' = Some result
       \<and> (k \<noteq> ''test_cases_review'' \<longrightarrow> feedback_of (snd (test_cases_review w s)) k = feedback_of s k)
       \<and> resolve_next create_development_workflow ''test_cases_review'' (snd (test_cases_review w s))
           = Inr (if flag_of result ''approved'' then ''qa_testing''
                  else ''fix_test_cases'')"
      by (simp add: resolve_gates)
  qed
  have test_cases_review_runs:
    "map_of s ''test_cases'' = Some tests \<longrightarrow>
     template_safe tests \<longrightarrow>
     map_of s ''user_stories'' = Some stories \<longrightarrow>
     template_safe stories \<longrightarrow>
     model_reply w = Inr result \<longrightarrow>
     map_of s ''feedback'' = Some (PDict fb) \<longrightarrow>
     getitem result ''approved'' = Inr a \<longrightarrow>
     map_of s ''history'' = Some (PList hs) \<longrightarrow>
       fst (test_cases_review w s) = Inr ()"
    by (intro impI) (rule test_cases_review_returns; assumption)
  have qa_testing_writes:
    "model_reply w = Inr result \<longrightarrow> fst (qa_testing w s) = Inr () \<longrightarrow>
       map_of (snd (qa_testing w s)) ''qa_results'' = Some result
       \<and> map_of (snd (qa_testing w s)) ''feedback'' = map_of s ''feedback''
       \<and> resolve_next create_development_workflow ''qa_testing'' (snd (qa_testing w s))
           = Inr (if flag_of result ''passed'' then ''deployment'' else ''fix_code_after_qa'')"
  proof (intro impI)
    assume r: "model_reply w = Inr result" and ok: "fst (qa_testing w s) = Inr ()"
    from qa_testing_results [OF outcome [OF ok] r]
    show "map_of (snd (qa_testing w s)) ''qa_results'' = Some result
       \<and> map_of (snd (qa_testing w s)) ''feedback'' = map_of s ''feedback''
       \<and> resolve_next create_development_workflow ''qa_testing'' (snd (qa_testing w s))
           = Inr (if flag_of result ''passed'' then ''deployment'' else ''fix_code_after_qa'')"
      by (simp add: resolve_gates)
  qed
  have qa_testing_runs:
    "map_of s ''code'' = Some code \<longrightarrow>
     template_safe code \<longrightarrow>
     map_of s ''test_cases'' = Some tests \<longrightarrow>
     template_safe tests \<longrightarrow>
     model_reply w = Inr result \<longrightarrow>
     getitem result ''passed'' = Inr p \<longrightarrow>
     getitem result ''pass_rate'' = Inr rate \<longrightarrow>
     map_of s ''history'' = Some (PList hs) \<longrightarrow>
       fst (qa_testing w s) = Inr ()"
    by (intro impI) (rule qa_testing_returns; assumption)
  show ?thesis
    by (intro conjI)
       (rule product_owner_review_writes
          product_owner_review_runs
          design_review_writes
          design_review_runs
          code_review_writes
          code_review_runs
          security_review_writes
          security_review_runs
          test_cases_review_writes
          test_cases_review_runs
          qa_testing_writes
          qa_testing_runs)+
qed

theorem gate_handlers_write_decision_key_witness:
  "feedback_of (snd (product_owner_review (reply approval) plain_state)) ''product_owner''
     = Some approval
   \<and> feedback_of (snd (product_owner_review (reply approval) plain_state)) ''design_review''
     = Some (PStr ''Describe the data model'')
   \<and> feedback_of (snd (design_review (reply approval) plain_state)) ''design_review''
     = Some approval
   \<and> feedback_of (snd (design_review (reply approval) plain_state)) ''product_owner''
     = Some (PStr ''Add acceptance criteria'')
   \<and> feedback_of (snd (code_review (reply approval) plain_state)) ''code_review''
     = Some approval
   \<and> feedback_of (snd (code_review (reply approval) plain_state)) ''product_owner''
     = Some (PStr ''Add acceptance criteria'')
   \<and> feedback_of (snd (security_review (reply approval) plain_state)) ''security_review''
     = Some approval
   \<and> feedback_of (snd (security_review (reply approval) plain_state)) ''product_owner''
     = Some (PStr ''Add acceptance criteria'')
   \<and> feedback_of (snd (test_cases_review (reply approval) plain_state)) ''test_cases_review''
     = Some approval
   \<and> feedback_of (snd (test_cases_review (reply approval) plain_state)) ''product_owner''
     = Some (PStr ''Add acceptance criteria'')
   \<and> resolve_next create_development_workflow ''design_review''
       (snd (design_review (reply approval) plain_state)) = Inr ''generate_code''
   \<and> map_of (snd (qa_testing (reply full_reply) plain_state)) ''qa_results'' = Some full_reply
   \<and> map_of (snd (qa_testing (reply full_reply) plain_state)) ''feedback''
       = Some (PDict plain_feedback)
   \<and> resolve_next create_development_workflow ''qa_testing''
       (snd (qa_testing (reply full_reply) plain_state)) = Inr ''deployment''"
proof -
  have st:
    "map_of plain_state ''user_stories'' = Some (PList [PStr ''As a user, I want to sign in''])"
    "map_of plain_state ''design_documents'' = Some (PStr ''Three-tier web application'')"
    "map_of plain_state ''code'' = Some (PStr ''def main(): pass'')"
    "map_of plain_state ''test_cases'' = Some (PList [PStr ''Sign in with a valid password''])"
    "map_of plain_state ''history'' = Some (PList [])"
    "map_of plain_state ''feedback'' = Some (PDict plain_feedback)"
    by (simp_all add: plain_state_def)
  have fb:
    "feedback_of plain_state ''product_owner'' = Some (PStr ''Add acceptance criteria'')"
    "feedback_of plain_state ''design_review'' = Some (PStr ''Describe the data model'')"
    by (simp_all add: feedback_of_def plain_state_def plain_feedback_def)
  have rp: "model_reply (reply approval) = Inr approval"
    "model_reply (reply full_reply) = Inr full_reply"
    "getitem approval ''approved'' = Inr (PBool True)"
    "getitem full_reply ''passed'' = Inr (PBool True)"
    "getitem full_reply ''pass_rate'' = Inr (PInt 100)"
    "flag_of approval ''approved''" "flag_of full_reply ''passed''"
    by (simp_all add: reply_def approval_def full_reply_def flag_of_def)
  note a = gate_handlers_write_decision_key
    [of "reply approval" approval plain_state "''product_owner''"
        "PList [PStr ''As a user, I want to sign in'']" plain_feedback "PBool True" "[]"
        "PStr ''Three-tier web application''" "PStr ''def main(): pass''"
        "PList [PStr ''Sign in with a valid password'']"]
  note b = gate_handlers_write_decision_key
    [of "reply approval" approval plain_state "''design_review''"
        "PList [PStr ''As a user, I want to sign in'']" plain_feedback "PBool True" "[]"
        "PStr ''Three-tier web application''" "PStr ''def main(): pass''"
        "PList [PStr ''Sign in with a valid password'']"]
  note c = gate_handlers_write_decision_key
    [of "reply full_reply" full_reply plain_state "''design_review''"
        "PList [PStr ''As a user, I want to sign in'']" plain_feedback "PBool True" "[]"
        "PStr ''Three-tier web application''" "PStr ''def main(): pass''"
        "PList [PStr ''Sign in with a valid password'']" "PBool True" "PInt 100"]
  show ?thesis
    using a b c st fb rp by simp
qed

section \<open>The release steps\<close>










section \<open>The workflow has no terminal state\<close>

lemma registered_routable:
  assumes "(name, h) \<in> set (nodes create_development_workflow)"
      and "routable s" and "h w s = (Inr (), s')"
  shows "routable s'"
proof -
  from assms(1) have "h \<in> snd ` set (nodes create_development_workflow)"
    by force
  then show ?thesis
    using assms(2,3) unfolding workflow_nodes
    by (simp only: list.set image_insert image_empty snd_conv insert_iff empty_iff)
       (elim disjE FalseE; hypsubst; rule handler_routable, assumption, assumption)
qed

lemma routable_current_step: "routable (AList.update ''current_step'' v s) = routable s"
  by (simp add: routable_def update_conv')

lemma approval_route_Inr:
  "approval_route key fwd fix s = Inr n \<Longrightarrow> n = fwd \<or> n = fix"
  by (auto simp: approval_route_def split: sum.splits if_splits)

lemma qa_testing_decision_Inr:
  "qa_testing_decision s = Inr n \<Longrightarrow> n = ''deployment'' \<or> n = ''fix_code_after_qa''"
  by (auto simp: qa_testing_decision_def split: sum.splits if_splits)

lemma resolve_next_registered:
  assumes "resolve_next create_development_workflow n s = Inr n'"
  shows "n' \<in> set step_names"
proof (cases "map_of (branches create_development_workflow) n")
  case None
  with assms have "map_of (edges create_development_workflow) n = Some n'"
    by (simp add: resolve_next_def split: option.splits)
  then have "(n, n') \<in> set (edges create_development_workflow)"
    by (rule map_of_SomeD)
  then show ?thesis
    by (auto simp: workflow_edges step_names_eq)
next
  case (Some path)
  with assms have path: "path s = Inr n'"
    by (simp add: resolve_next_def)
  from Some have "(n, path) \<in> set (branches create_development_workflow)"
    by (rule map_of_SomeD)
  then have "path \<in> {product_owner_review_decision, design_review_decision,
      code_review_decision, security_review_decision, test_cases_review_decision,
      qa_testing_decision}"
    by (auto simp: workflow_branches)
  with path have "n' \<in> {''create_design_documents'', ''revise_user_stories'', ''generate_code'',
      ''revise_design_documents'', ''security_review'', ''fix_code_after_review'',
      ''write_test_cases'', ''fix_code_after_security'', ''qa_testing'', ''fix_test_cases'',
      ''deployment'', ''fix_code_after_qa''}"
    by (auto simp: decision_defs dest!: approval_route_Inr qa_testing_decision_Inr)
  then show ?thesis
    by (auto simp: step_names_eq)
qed

lemma approval_route_total:
  assumes "routable s"
  shows "\<exists>n. approval_route key fwd fix s = Inr n"
proof -
  from assms obtain fb where fb: "map_of s ''feedback'' = Some (PDict fb)"
    and dicts: "list_all (\<lambda>p. is_dict (snd p)) fb"
    by (auto simp: routable_def split: option.splits pyval.splits)
  obtain review where review: "dict_get (PDict fb) key (PDict []) = Inr review"
    and "is_dict review"
  proof (cases "map_of fb key")
    case None
    then show ?thesis using that [of "PDict []"] by simp
  next
    case (Some v)
    then have "(key, v) \<in> set fb" by (rule map_of_SomeD)
    with dicts have "is_dict v" by (auto simp: list_all_iff)
    with Some show ?thesis using that [of v] by simp
  qed
  then obtain d where "review = PDict d" by (cases review) simp_all
  with fb review show ?thesis by (simp add: approval_route_def)
qed

lemma qa_testing_decision_total:
  assumes "routable s"
  shows "\<exists>n. qa_testing_decision s = Inr n"
proof -
  from assms obtain qa where "map_of s ''qa_results'' = Some (PDict qa)"
    by (auto simp: routable_def is_dict_iff split: option.splits pyval.splits)
  then show ?thesis by (simp add: qa_testing_decision_def)
qed

lemma resolve_next_total:
  assumes "routable s" and "n \<in> set step_names"
  shows "\<exists>n'. resolve_next create_development_workflow n s = Inr n'"
  using assms(2)
  by (auto simp: step_names_eq resolve_gates resolve_edges decision_defs
           intro: approval_route_total [OF assms(1)] qa_testing_decision_total [OF assms(1)])

lemma END_not_registered: "END \<notin> set step_names"
  by (simp add: step_names_eq END_def)

lemma exec_step_invariant:
  assumes "routable s" and "exec_step create_development_workflow name w s = (Inr (), s')"
  shows "routable s' \<and> (\<exists>n. map_of s' ''current_step'' = Some (PStr n) \<and> n \<in> set step_names)"
proof -
  from assms(2) obtain h u n where h: "map_of (nodes create_development_workflow) name = Some h"
    and u: "h w s = (Inr (), u)"
    and n: "resolve_next create_development_workflow name u = Inr n"
    and s': "s' = AList.update ''current_step'' (PStr n) u"
    by (auto simp: exec_step_def seq_Inr bnd_Inr state_setitem_Inr lift_def
             split: option.splits)
  from registered_routable [OF map_of_SomeD [OF h] assms(1) u] have "routable u" .
  with s' have "routable s'" by (simp add: routable_current_step)
  moreover from n have "n \<in> set step_names" by (rule resolve_next_registered)
  ultimately show ?thesis using s' by (auto simp: update_conv')
qed

lemma registered_current_step:
  assumes "(name, h) \<in> set (nodes create_development_workflow)" and "h w s = (Inr (), s')"
  shows "\<exists>n. map_of s' ''current_step'' = Some (PStr n) \<and> n \<in> set step_names"
proof -
  from assms(1) have "h \<in> snd ` set (nodes create_development_workflow)"
    by force
  then show ?thesis
    using assms(2) unfolding workflow_nodes
    by (simp only: list.set image_insert image_empty snd_conv insert_iff empty_iff)
       (elim disjE FalseE; hypsubst; rule handler_current_step, assumption)
qed

lemma reachable_invariant:
  "reachable s \<Longrightarrow>
   routable s \<and> (\<exists>n. map_of s ''current_step'' = Some (PStr n) \<and> n \<in> set step_names)"
proof (induction rule: reachable.induct)
  case init
  show ?case by (simp add: initial_state_def routable_def step_names_eq)
next
  case (step s name h w s')
  then show ?case using registered_routable registered_current_step by blast
qed

lemma run_uses_budget:
  "routable s \<Longrightarrow> \<exists>n. map_of s ''current_step'' = Some (PStr n) \<and> n \<in> set step_names \<Longrightarrow>
   run create_development_workflow ws s = (visited, Inr (), s') \<Longrightarrow>
   length visited = length ws"
proof (induction ws arbitrary: s visited)
  case Nil
  then show ?case by simp
next
  case (Cons w ws)
  from Cons.prems(2) obtain name where
    name: "map_of s ''current_step'' = Some (PStr name)" and reg: "name \<in> set step_names"
    by blast
  from reg END_not_registered have not_end: "name \<noteq> END" by auto
  obtain r u where step: "exec_step create_development_workflow name w s = (r, u)"
    by (cases "exec_step create_development_workflow name w s")
  show ?case
  proof (cases r)
    case (Inl e)
    with Cons.prems(3) name not_end step show ?thesis by simp
  next
    case (Inr x)
    with step have ok: "exec_step create_development_workflow name w s = (Inr (), u)" by simp
    note inv = exec_step_invariant [OF Cons.prems(1) ok]
    obtain v t where rest: "run create_development_workflow ws u = (v, t)"
      by (cases "run create_development_workflow ws u")
    have "t = (Inr (), s') \<Longrightarrow> length v = length ws"
      using Cons.IH [of u v] inv rest by simp
    with Cons.prems(3) name not_end ok rest show ?thesis by auto
  qed
qed

text \<open>
  C4: \<^verbatim>\<open>maintenance\<close> always goes back to \<^verbatim>\<open>collect_requirements\<close>, and the terminal
  marker is no registered step. In every state the node functions can produce from the
  initial state, \<^verbatim>\<open>current_step\<close> is a registered step, and after any registered step
  the next step resolves, to a registered step again. So a run never stops at the
  terminal marker: one that ends without a failure has used up the whole iteration
  budget of its caller.
\<close>

theorem workflow_has_no_terminal_state:
  assumes "reachable s"
  shows "resolve_next create_development_workflow ''maintenance'' s = Inr ''collect_requirements''
       \<and> END \<notin> set step_names
       \<and> (\<exists>n. map_of s ''current_step'' = Some (PStr n) \<and> n \<in> set step_names \<and> n \<noteq> END)
       \<and> (n \<in> set step_names \<longrightarrow>
            (\<exists>n'. resolve_next create_development_workflow n s = Inr n'
                   \<and> n' \<in> set step_names \<and> n' \<noteq> END))
       \<and> (run create_development_workflow ws s = (visited, Inr (), s') \<longrightarrow>
            length visited = length ws)"
proof -
  from reachable_invariant [OF assms] obtain c where routable: "routable s"
    and c: "map_of s ''current_step'' = Some (PStr c)" "c \<in> set step_names"
    by blast
  have "\<exists>n'. resolve_next create_development_workflow n s = Inr n'
               \<and> n' \<in> set step_names \<and> n' \<noteq> END"
    if "n \<in> set step_names"
  proof -
    from resolve_next_total [OF routable that] obtain n' where
      n': "resolve_next create_development_workflow n s = Inr n'" ..
    then have "n' \<in> set step_names" by (rule resolve_next_registered)
    with n' END_not_registered show ?thesis by auto
  qed
  moreover from c END_not_registered have
    "\<exists>n. map_of s ''current_step'' = Some (PStr n) \<and> n \<in> set step_names \<and> n \<noteq> END"
    by auto
  ultimately show ?thesis
    using END_not_registered run_uses_budget [OF routable, of ws visited s'] c
    by (simp add: resolve_edges)
qed

theorem workflow_has_no_terminal_state_witness:
  "resolve_next create_development_workflow ''maintenance'' initial_state
     = Inr ''collect_requirements''
   \<and> map_of initial_state ''current_step'' = Some (PStr ''collect_requirements'')
   \<and> resolve_next create_development_workflow ''qa_testing'' initial_state
       = Inr ''fix_code_after_qa''
   \<and> ''fix_code_after_qa'' \<noteq> END
   \<and> length (fst (run create_development_workflow [reply PNone] initial_state)) = 1"
proof -
  define visited where "visited = fst (run create_development_workflow [reply PNone] initial_state)"
  define final where "final = snd (snd (run create_development_workflow [reply PNone] initial_state))"
  have "fst (snd (run create_development_workflow [reply PNone] initial_state)) = Inr ()"
    by (simp add: END_def exec_step_def workflow_nodes resolve_edges
          requirements_collect_requirements_def run_defs)
  then have r: "run create_development_workflow [reply PNone] initial_state
                  = (visited, Inr (), final)"
    unfolding visited_def final_def by (simp add: prod_eq_iff)
  note t = workflow_has_no_terminal_state
             [OF reachable.init, of "''qa_testing''" "[reply PNone]" visited final]
  from t have a: "resolve_next create_development_workflow ''maintenance'' initial_state
                    = Inr ''collect_requirements''"
    by (rule conjunct1)
  from t r have "length visited = length [reply PNone]"
    by blast
  then have b: "length (fst (run create_development_workflow [reply PNone] initial_state)) = 1"
    unfolding visited_def by simp
  have c: "map_of initial_state ''current_step'' = Some (PStr ''collect_requirements'')"
    "resolve_next create_development_workflow ''qa_testing'' initial_state
       = Inr ''fix_code_after_qa''"
    "''fix_code_after_qa'' \<noteq> END"
    by (simp_all add: initial_state_def resolve_gates qa_testing_decision_def END_def)
  from a b c show ?thesis
    by (intro conjI)
qed

section \<open>The happy path\<close>

lemma stubbed_nodes:
  "nodes (stubbed create_development_workflow) = map (\<lambda>n. (n, stub)) step_names"
  by (simp add: stubbed_def step_names_def comp_def)

lemma resolve_next_stubbed: "resolve_next (stubbed g) n s = resolve_next g n s"
  by (simp add: resolve_next_def stubbed_def cong: option.case_cong)

lemma approved_flag_current_step:
  "approved_flag (AList.update ''current_step'' v s) key = approved_flag s key"
  by (simp add: approved_flag_def feedback_of_def update_conv')

lemma passed_flag_current_step:
  "passed_flag (AList.update ''current_step'' v s) = passed_flag s"
  by (simp add: passed_flag_def update_conv')

lemma stubbed_step:
  "n \<in> set step_names \<Longrightarrow> resolve_next create_development_workflow n s = Inr n' \<Longrightarrow>
   exec_step (stubbed create_development_workflow) n w s
     = (Inr (), AList.update ''current_step'' (PStr n') s)"
  by (auto simp: exec_step_def stubbed_nodes map_of_map_restrict restrict_map_def
        resolve_next_stubbed stub_def exec_defs)

lemma approving_route:
  assumes "approved_flag s ''product_owner'' = Some a1" and "truthy a1"
      and "approved_flag s ''design_review'' = Some a2" and "truthy a2"
      and "approved_flag s ''code_review'' = Some a3" and "truthy a3"
      and "approved_flag s ''security_review'' = Some a4" and "truthy a4"
      and "approved_flag s ''test_cases_review'' = Some a5" and "truthy a5"
      and "passed_flag s = Some p" and "truthy p"
  shows "resolve_next create_development_workflow ''product_owner_review'' s
           = Inr ''create_design_documents''"
    and "resolve_next create_development_workflow ''design_review'' s = Inr ''generate_code''"
    and "resolve_next create_development_workflow ''code_review'' s = Inr ''security_review''"
    and "resolve_next create_development_workflow ''security_review'' s = Inr ''write_test_cases''"
    and "resolve_next create_development_workflow ''test_cases_review'' s = Inr ''qa_testing''"
    and "resolve_next create_development_workflow ''qa_testing'' s = Inr ''deployment''"
  using assms
  by (simp_all add: resolve_gates decision_defs approval_route_flag qa_testing_decision_flag)

lemma stubbed_happy_run:
  assumes "approved_flag s ''product_owner'' = Some a1" and "truthy a1"
      and "approved_flag s ''design_review'' = Some a2" and "truthy a2"
      and "approved_flag s ''code_review'' = Some a3" and "truthy a3"
      and "approved_flag s ''security_review'' = Some a4" and "truthy a4"
      and "approved_flag s ''test_cases_review'' = Some a5" and "truthy a5"
      and "passed_flag s = Some p" and "truthy p"
      and "map_of s ''current_step'' = Some (PStr ''collect_requirements'')"
  shows "run (stubbed create_development_workflow)
           [w1, w2, w3, w4, w5, w6, w7, w8, w9, w10, w11, w12, w13, w14] s
         = ([''collect_requirements'', ''generate_user_stories'', ''product_owner_review'',
             ''create_design_documents'', ''design_review'', ''generate_code'', ''code_review'',
             ''security_review'', ''write_test_cases'', ''test_cases_review'', ''qa_testing'',
             ''deployment'', ''monitoring'', ''maintenance''], Inr (), s)"
proof -
  have again: "AList.update ''current_step'' (PStr ''collect_requirements'') s = s"
    using assms(13) by (simp add: update_triv)
  show ?thesis
    using assms(13) approving_route [OF assms(1-12)]
    by (simp add: END_def stubbed_step step_names_eq resolve_edges approving_route
          approved_flag_current_step passed_flag_current_step update_conv' again assms(1-12))
qed

text \<open>
  C9, as the code has it. With the node functions stubbed, every review approved and QA
  passed, the Executor run from \<^verbatim>\<open>collect_requirements\<close> completes fourteen iterations
  before it is back at \<^verbatim>\<open>collect_requirements\<close>, not the eleven that eight forward steps
  and three release steps would make: before the release steps come five generating
  steps and six gates.
\<close>

theorem happy_path_counterexample:
  "fst (snd (run (stubbed create_development_workflow) fourteen approving_state)) = Inr ()
   \<and> map_of (snd (snd (run (stubbed create_development_workflow) fourteen approving_state)))
        ''current_step'' = Some (PStr ''collect_requirements'')
   \<and> length (fst (run (stubbed create_development_workflow) fourteen approving_state)) = 14
   \<and> length (fst (run (stubbed create_development_workflow) fourteen approving_state)) \<noteq> 8 + 3"
proof -
  have flags:
    "approved_flag approving_state ''product_owner'' = Some (PBool True)"
    "approved_flag approving_state ''design_review'' = Some (PBool True)"
    "approved_flag approving_state ''code_review'' = Some (PBool True)"
    "approved_flag approving_state ''security_review'' = Some (PBool True)"
    "approved_flag approving_state ''test_cases_review'' = Some (PBool True)"
    "passed_flag approving_state = Some (PBool True)"
    "map_of approving_state ''current_step'' = Some (PStr ''collect_requirements'')"
    by (simp_all add: approving_state_def approved_flag_def feedback_of_def passed_flag_def)
  have t: "truthy (PBool True)" by simp
  have "run (stubbed create_development_workflow) fourteen approving_state
          = ([''collect_requirements'', ''generate_user_stories'', ''product_owner_review'',
              ''create_design_documents'', ''design_review'', ''generate_code'', ''code_review'',
              ''security_review'', ''write_test_cases'', ''test_cases_review'', ''qa_testing'',
              ''deployment'', ''monitoring'', ''maintenance''], Inr (), approving_state)"
    unfolding fourteen_def
    by (rule stubbed_happy_run
          [OF flags(1) t flags(2) t flags(3) t flags(4) t flags(5) t flags(6) t flags(7)])
  then show ?thesis
    using flags(7) by simp
qed

text \<open>
  C9, amended: starting at \<^verbatim>\<open>collect_requirements\<close>, with the node functions stubbed and
  every gate's decision seeing approved=true and \<^verbatim>\<open>qa_results.passed\<close>=true, the Executor
  visits exactly fourteen steps in the order of the state-machine table: the eleven
  forward steps (the five generating steps and the six gates) and then the three
  release steps. It ends without a failure, back at \<^verbatim>\<open>collect_requirements\<close> in the
  state it started from, and no fix/revise step is visited. The order is that of the
  graph of \<^verbatim>\<open>create_development_workflow\<close> itself: in such a state each of the fourteen
  steps resolves to the next one, and \<^verbatim>\<open>maintenance\<close> to \<^verbatim>\<open>collect_requirements\<close>.
\<close>

theorem happy_path_visits_forward_and_release_steps:
  assumes "approved_flag s ''product_owner'' = Some a1" and "truthy a1"
      and "approved_flag s ''design_review'' = Some a2" and "truthy a2"
      and "approved_flag s ''code_review'' = Some a3" and "truthy a3"
      and "approved_flag s ''security_review'' = Some a4" and "truthy a4"
      and "approved_flag s ''test_cases_review'' = Some a5" and "truthy a5"
      and "passed_flag s = Some p" and "truthy p"
      and "map_of s ''current_step'' = Some (PStr ''collect_requirements'')"
  shows "run (stubbed create_development_workflow)
           [w1, w2, w3, w4, w5, w6, w7, w8, w9, w10, w11, w12, w13, w14] s
         = ([''collect_requirements'', ''generate_user_stories'', ''product_owner_review'',
             ''create_design_documents'', ''design_review'', ''generate_code'', ''code_review'',
             ''security_review'', ''write_test_cases'', ''test_cases_review'', ''qa_testing'']
            @ [''deployment'', ''monitoring'', ''maintenance''], Inr (), s)
       \<and> set (fst (run (stubbed create_development_workflow)
                    [w1, w2, w3, w4, w5, w6, w7, w8, w9, w10, w11, w12, w13, w14] s))
          \<inter> set [''revise_user_stories'', ''revise_design_documents'', ''fix_code_after_review'',
                  ''fix_code_after_security'', ''fix_test_cases'', ''fix_code_after_qa''] = {}
       \<and> [resolve_next create_development_workflow ''collect_requirements'' s,
           resolve_next create_development_workflow ''generate_user_stories'' s,
           resolve_next create_development_workflow ''product_owner_review'' s,
           resolve_next create_development_workflow ''create_design_documents'' s,
           resolve_next create_development_workflow ''design_review'' s,
           resolve_next create_development_workflow ''generate_code'' s,
           resolve_next create_development_workflow ''code_review'' s,
           resolve_next create_development_workflow ''security_review'' s,
           resolve_next create_development_workflow ''write_test_cases'' s,
           resolve_next create_development_workflow ''test_cases_review'' s,
           resolve_next create_development_workflow ''qa_testing'' s,
           resolve_next create_development_workflow ''deployment'' s,
           resolve_next create_development_workflow ''monitoring'' s,
           resolve_next create_development_workflow ''maintenance'' s]
          = [Inr ''generate_user_stories'', Inr ''product_owner_review'',
             Inr ''create_design_documents'', Inr ''design_review'', Inr ''generate_code'',
             Inr ''code_review'', Inr ''security_review'', Inr ''write_test_cases'',
             Inr ''test_cases_review'', Inr ''qa_testing'', Inr ''deployment'',
             Inr ''monitoring'', Inr ''maintenance'', Inr ''collect_requirements'']"
  using stubbed_happy_run [OF assms] approving_route [OF assms(1-12)]
  by (simp add: resolve_edges)

theorem happy_path_visits_forward_and_release_steps_witness:
  "run (stubbed create_development_workflow) fourteen approving_state
     = ([''collect_requirements'', ''generate_user_stories'', ''product_owner_review'',
         ''create_design_documents'', ''design_review'', ''generate_code'', ''code_review'',
         ''security_review'', ''write_test_cases'', ''test_cases_review'', ''qa_testing'',
         ''deployment'', ''monitoring'', ''maintenance''], Inr (), approving_state)"
proof -
  have flags:
    "approved_flag approving_state ''product_owner'' = Some (PBool True)"
    "approved_flag approving_state ''design_review'' = Some (PBool True)"
    "approved_flag approving_state ''code_review'' = Some (PBool True)"
    "approved_flag approving_state ''security_review'' = Some (PBool True)"
    "approved_flag approving_state ''test_cases_review'' = Some (PBool True)"
    "passed_flag approving_state = Some (PBool True)"
    "map_of approving_state ''current_step'' = Some (PStr ''collect_requirements'')"
    by (simp_all add: approving_state_def approved_flag_def feedback_of_def passed_flag_def)
  have t: "truthy (PBool True)" by simp
  show ?thesis
    using happy_path_visits_forward_and_release_steps
      [OF flags(1) t flags(2) t flags(3) t flags(4) t flags(5) t flags(6) t flags(7),
       of "reply PNone" "reply PNone" "reply PNone" "reply PNone" "reply PNone" "reply PNone"
          "reply PNone" "reply PNone" "reply PNone" "reply PNone" "reply PNone" "reply PNone"
          "reply PNone" "reply PNone"]
    by (simp add: fourteen_def)
qed

text \<open>
  With the node functions as they are, the run from the initial state does not get
  that far: after \<^verbatim>\<open>collect_requirements\<close> the registered \<^verbatim>\<open>generate_user_stories\<close> is the
  one of \<^verbatim>\<open>user-stories-module.py\<close>, which raises for want of a model.
\<close>

lemma run_stops_at_generate_user_stories:
  "fst (run create_development_workflow fourteen initial_state) = [''collect_requirements'']
   \<and> fst (snd (run create_development_workflow fourteen initial_state)) = Inl ChainError"
  by (simp add: fourteen_def END_def exec_step_def workflow_nodes resolve_edges
        requirements_collect_requirements_def user_stories_generate_user_stories_def run_defs)

end
